theory Spec2Isabelle
  imports Complex_Main
begin

section \<open>Python values\<close>

text \<open>
  A Python \<open>str\<close> is a sequence of Unicode code points, so a string is a list of natural
  numbers and \<open>length\<close> is Python's \<open>len\<close>. The literals of the source are written
  with \<open>py\<close>. A Python \<open>float\<close> is the rational number it denotes, and the arithmetic
  on floats rounds its exact result to the nearest double with \<open>rd\<close>.
\<close>

type_synonym pystr = "nat list"

definition py :: "string \<Rightarrow> pystr" where
  "py s = map of_char s"

text \<open>\<open>str.isspace\<close> of one code point: the white space table of CPython.\<close>

definition isspace :: "nat \<Rightarrow> bool" where
  "isspace c =
     ((9 \<le> c \<and> c \<le> 13) \<or> (28 \<le> c \<and> c \<le> 32) \<or> c = 133 \<or> c = 160 \<or> c = 5760 \<or>
      (8192 \<le> c \<and> c \<le> 8202) \<or> c = 8232 \<or> c = 8233 \<or> c = 8239 \<or> c = 8287 \<or> c = 12288)"

definition strip :: "pystr \<Rightarrow> pystr" where
  "strip s = rev (dropWhile isspace (rev (dropWhile isspace s)))"

definition lstrip :: "pystr \<Rightarrow> pystr \<Rightarrow> pystr" where
  "lstrip chars s = dropWhile (\<lambda>c. c \<in> set chars) s"

text \<open>\<open>s.split(sep)\<close> for a separator of one character.\<close>

fun split_on :: "nat \<Rightarrow> pystr \<Rightarrow> pystr list" where
  "split_on sep [] = [[]]"
| "split_on sep (c # cs) =
     (if c = sep then [] # split_on sep cs
      else (case split_on sep cs of [] \<Rightarrow> [[c]] | l # ls \<Rightarrow> (c # l) # ls))"

fun startswith :: "pystr \<Rightarrow> pystr \<Rightarrow> bool" where
  "startswith s [] = True"
| "startswith [] (p # ps) = False"
| "startswith (c # cs) (p # ps) = (c = p \<and> startswith cs ps)"

text \<open>\<open>sub in s\<close> on strings.\<close>

fun contains :: "pystr \<Rightarrow> pystr \<Rightarrow> bool" where
  "contains sub [] = (sub = [])"
| "contains sub (c # cs) = (startswith (c # cs) sub \<or> contains sub cs)"

text \<open>\<open>sep.join(xs)\<close>.\<close>

fun join :: "pystr \<Rightarrow> pystr list \<Rightarrow> pystr" where
  "join sep [] = []"
| "join sep [x] = x"
| "join sep (x # y # ys) = x @ sep @ join sep (y # ys)"

fun digits :: "nat \<Rightarrow> pystr" where
  "digits n = (if n < 10 then [48 + n] else digits (n div 10) @ [48 + n mod 10])"

declare digits.simps [simp del]

text \<open>\<open>str(i)\<close> of an integer.\<close>

definition str_int :: "int \<Rightarrow> pystr" where
  "str_int i = (if i < 0 then 45 # digits (nat (- i)) else digits (nat i))"

section \<open>Floats\<close>

text \<open>Python's \<open>round\<close> to an integer: to the nearest, a tie to the even neighbour.\<close>

definition py_round :: "rat \<Rightarrow> int" where
  "py_round y =
     (let f = \<lfloor>y\<rfloor>; r = y - of_int f
      in if r < 1 / 2 then f else if r > 1 / 2 then f + 1 else if even f then f else f + 1)"

text \<open>
  Rounding to the nearest IEEE double, a tie to the even significand: the number is scaled
  by powers of 2 until it lies between \<open>2 ^ 52\<close> and \<open>2 ^ 53\<close>, rounded to an integer
  and scaled back. The exponent is not bounded: overflow, subnormal numbers, infinities
  and NaN are left out.
\<close>

function rd_big :: "rat \<Rightarrow> rat" where
  "rd_big x = (if x < 2 ^ 53 then of_int (py_round x) else 2 * rd_big (x / 2))"
  by pat_completeness auto
termination
proof (relation "measure (\<lambda>x. nat \<lfloor>x\<rfloor>)")
  show "wf (measure (\<lambda>x::rat. nat \<lfloor>x\<rfloor>))" by simp
next
  fix x :: rat
  assume "\<not> x < 2 ^ 53"
  then have x: "2 \<le> x" by simp
  have "\<lfloor>x / 2\<rfloor> \<le> \<lfloor>x - 1\<rfloor>" using x by (intro floor_mono) simp
  then have "\<lfloor>x / 2\<rfloor> < \<lfloor>x\<rfloor>" by simp
  moreover have "0 < \<lfloor>x\<rfloor>" using x by simp
  ultimately show "(x / 2, x) \<in> measure (\<lambda>x. nat \<lfloor>x\<rfloor>)" by simp
qed

function rd_small :: "rat \<Rightarrow> rat" where
  "rd_small x = (if x \<le> 0 \<or> 2 ^ 52 \<le> x then of_int (py_round x) else rd_small (2 * x) / 2)"
  by pat_completeness auto
termination
proof (relation "measure (\<lambda>x. nat \<lceil>2 ^ 52 / x\<rceil>)")
  show "wf (measure (\<lambda>x::rat. nat \<lceil>2 ^ 52 / x\<rceil>))" by simp
next
  fix x :: rat
  assume "\<not> (x \<le> 0 \<or> 2 ^ 52 \<le> x)"
  then have x: "0 < x" "x < 2 ^ 52" by simp_all
  define y where "y = 2 ^ 52 / x"
  have y: "1 < y" using x by (simp add: y_def)
  have c2: "2 \<le> \<lceil>y\<rceil>" using y by linarith
  have "y \<le> of_int \<lceil>y\<rceil>" by linarith
  then have "y / 2 \<le> of_int \<lceil>y\<rceil> / 2" by simp
  also have "\<dots> \<le> of_int (\<lceil>y\<rceil> - 1)" using c2 by simp
  finally have "y / 2 \<le> of_int (\<lceil>y\<rceil> - 1)" .
  then have "\<lceil>y / 2\<rceil> \<le> \<lceil>y\<rceil> - 1" by (rule ceiling_le)
  moreover have e: "2 ^ 52 / (2 * x) = y / 2" by (simp add: y_def)
  have "\<lceil>2 ^ 52 / (2 * x)\<rceil> = \<lceil>y / 2\<rceil>" by (simp only: e)
  moreover have ey: "\<lceil>2 ^ 52 / x\<rceil> = \<lceil>y\<rceil>" by (simp only: y_def)
  ultimately have lt: "\<lceil>2 ^ 52 / (2 * x)\<rceil> < \<lceil>2 ^ 52 / x\<rceil>" by linarith
  have pos: "0 < \<lceil>2 ^ 52 / x\<rceil>" using c2 ey by linarith
  show "(2 * x, x) \<in> measure (\<lambda>x. nat \<lceil>2 ^ 52 / x\<rceil>)"
    unfolding in_measure zless_nat_conj using pos lt by (intro conjI)
qed

definition rd :: "rat \<Rightarrow> rat" where
  "rd x =
     (if x < 0 then - (if 2 ^ 52 \<le> - x then rd_big (- x) else rd_small (- x))
      else if 2 ^ 52 \<le> x then rd_big x else rd_small x)"

declare rd_big.simps [simp del] rd_small.simps [simp del]

section \<open>JSON values\<close>

text \<open>
  The JSON values of a question and of an answer: null, booleans, integers and strings
  (\<open>None\<close>, \<open>bool\<close>, \<open>int\<close>, \<open>str\<close> once loaded). Arrays, objects and floats are
  left out.
\<close>

datatype json = JNull | JBool bool | JInt int | JStr pystr

text \<open>Python's \<open>==\<close> on these values: a \<open>bool\<close> is the integer 0 or 1.\<close>

fun py_eq :: "json \<Rightarrow> json \<Rightarrow> bool" where
  "py_eq JNull JNull = True"
| "py_eq (JBool a) (JBool b) = (a = b)"
| "py_eq (JBool a) (JInt n) = ((if a then 1 else 0) = n)"
| "py_eq (JInt n) (JBool a) = (n = (if a then 1 else 0))"
| "py_eq (JInt m) (JInt n) = (m = n)"
| "py_eq (JStr s) (JStr t) = (s = t)"
| "py_eq _ _ = False"

text \<open>\<open>str(v)\<close>.\<close>

fun py_str :: "json \<Rightarrow> pystr" where
  "py_str JNull = py ''None''"
| "py_str (JBool b) = (if b then py ''True'' else py ''False'')"
| "py_str (JInt n) = str_int n"
| "py_str (JStr s) = s"

section \<open>Grading in \<open>submit_assessment\<close>\<close>

text \<open>
  A question is a dict; the code reads its keys \<open>id\<close>, \<open>correct_answer\<close> and
  \<open>question\<close>. \<open>None\<close> in a field is a key the dict does not have.
\<close>

record question =
  q_id :: "json option"
  q_correct_answer :: "json option"
  q_question :: "json option"

text \<open>\<open>d.get(key)\<close> and \<open>d.get(key, default)\<close>.\<close>

definition dict_get :: "json option \<Rightarrow> json \<Rightarrow> json" where
  "dict_get v dflt = (case v of None \<Rightarrow> dflt | Some x \<Rightarrow> x)"

definition question_id :: "question \<Rightarrow> pystr" where
  "question_id question = py_str (dict_get (q_id question) JNull)"

text \<open>The first loop of \<open>submit_assessment\<close>, \<open>correct_answers\<close> its counter.\<close>

fun count_correct :: "question list \<Rightarrow> (pystr \<rightharpoonup> json) \<Rightarrow> nat \<Rightarrow> nat" where
  "count_correct [] answers correct_answers = correct_answers"
| "count_correct (question # rest) answers correct_answers =
     (case answers (question_id question) of
        None \<Rightarrow> count_correct rest answers correct_answers
      | Some a \<Rightarrow>
          if py_eq a (dict_get (q_correct_answer question) JNull)
          then count_correct rest answers (correct_answers + 1)
          else count_correct rest answers correct_answers)"

definition score_of :: "question list \<Rightarrow> (pystr \<rightharpoonup> json) \<Rightarrow> rat" where
  "score_of questions answers =
     (let total_questions = length questions;
          correct_answers = count_correct questions answers 0
      in if total_questions > 0
         then rd (rd (of_nat correct_answers / of_nat total_questions) * 100)
         else 0)"

definition passed_of :: "rat \<Rightarrow> int \<Rightarrow> bool" where
  "passed_of score passing_score = (score \<ge> of_int passing_score)"

text \<open>The second loop, \<open>questions_missed\<close> its accumulator.\<close>

fun collect_missed :: "question list \<Rightarrow> (pystr \<rightharpoonup> json) \<Rightarrow> json list \<Rightarrow> json list" where
  "collect_missed [] answers questions_missed = questions_missed"
| "collect_missed (question # rest) answers questions_missed =
     (case answers (question_id question) of
        None \<Rightarrow> collect_missed rest answers questions_missed
      | Some a \<Rightarrow>
          if \<not> py_eq a (dict_get (q_correct_answer question) JNull)
          then collect_missed rest answers
                 (questions_missed @ [dict_get (q_question question) (JStr (py ''Unknown question''))])
          else collect_missed rest answers questions_missed)"

definition questions_missed_of :: "question list \<Rightarrow> (pystr \<rightharpoonup> json) \<Rightarrow> json list" where
  "questions_missed_of questions answers = collect_missed questions answers []"

text \<open>The assessment and the submission of scenario A.\<close>

definition mk_question :: "string \<Rightarrow> string \<Rightarrow> string \<Rightarrow> question" where
  "mk_question i a t =
     \<lparr>q_id = Some (JStr (py i)), q_correct_answer = Some (JStr (py a)),
      q_question = Some (JStr (py t))\<rparr>"

definition scenario_questions :: "question list" where
  "scenario_questions =
     [mk_question ''q1'' ''a'' ''Question one'', mk_question ''q2'' ''b'' ''Question two'',
      mk_question ''q3'' ''c'' ''Question three'', mk_question ''q4'' ''d'' ''Question four'']"

definition scenario_answers :: "pystr \<rightharpoonup> json" where
  "scenario_answers =
     [py ''q1'' \<mapsto> JStr (py ''a''), py ''q2'' \<mapsto> JStr (py ''b''), py ''q3'' \<mapsto> JStr (py ''x'')]"

section \<open>The record store\<close>

text \<open>
  A \<open>datetime\<close> is a number of microseconds. The rows of a table are a list, in the
  order the store gives them. A foreign key is the id of the row it names; the name of a
  learning path's or an assessment's subject is kept with the row.
\<close>

type_synonym timestamp = int

datatype error = Http404 | MultipleObjectsReturned | TypeError | IntegrityError

record student =
  s_id :: int
  s_first_name :: pystr
  s_grade_level :: int

record content =
  c_id :: int
  c_title :: pystr
  c_content_type :: pystr

record learning_path =
  lp_id :: int
  lp_title :: pystr
  lp_subject_name :: pystr
  lp_difficulty_level :: pystr

record content_assignment =
  ca_learning_path_id :: int
  ca_content_id :: int

record assessment =
  a_id :: int
  a_content_id :: "int option"
  a_title :: pystr
  a_subject_name :: pystr
  a_questions :: "question list"
  a_passing_score :: int

record progress =
  p_id :: int
  p_student_id :: int
  p_learning_path_id :: int
  p_content_id :: int
  p_status :: pystr
  p_completion_percentage :: rat
  p_time_spent_minutes :: int
  p_started_at :: "timestamp option"
  p_completed_at :: "timestamp option"
  p_mastery_level :: rat
  p_score :: "rat option"
  p_updated_at :: timestamp

record assessment_result =
  r_student_id :: int
  r_assessment_id :: int
  r_learning_path_id :: "int option"
  r_answers :: "pystr \<rightharpoonup> json"
  r_score :: rat
  r_passed :: bool
  r_started_at :: timestamp
  r_submitted_at :: timestamp
  r_time_taken_minutes :: int
  r_feedback :: pystr
  r_ai_feedback :: pystr
  r_graded :: bool

text \<open>The values of the \<open>context_data\<close> dict of a mentor session.\<close>

datatype cval = CInt int | CStr pystr

record mentor_session =
  m_student_id :: int
  m_learning_path_id :: "int option"
  m_session_type :: pystr
  m_query :: pystr
  m_response :: pystr
  m_context_data :: "(string \<times> cval) list"

record db =
  db_students :: "student list"
  db_contents :: "content list"
  db_learning_paths :: "learning_path list"
  db_content_assignments :: "content_assignment list"
  db_assessments :: "assessment list"
  db_progress :: "progress list"
  db_results :: "assessment_result list"
  db_sessions :: "mentor_session list"

text \<open>
  \<open>get_object_or_404(Model, id=i)\<close>: \<open>DoesNotExist\<close> becomes \<open>Http404\<close>, and
  \<open>MultipleObjectsReturned\<close> is not caught.
\<close>

definition get_object_or_404 :: "('a \<Rightarrow> int) \<Rightarrow> 'a list \<Rightarrow> int \<Rightarrow> error + 'a" where
  "get_object_or_404 key rows i =
     (case filter (\<lambda>r. key r = i) rows of
        [] \<Rightarrow> Inl Http404
      | [r] \<Rightarrow> Inr r
      | _ \<Rightarrow> Inl MultipleObjectsReturned)"

text \<open>\<open>progress.save()\<close>: the row of that id is written, \<open>updated_at\<close> is \<open>auto_now\<close>.\<close>

definition save_progress :: "db \<Rightarrow> progress \<Rightarrow> timestamp \<Rightarrow> db" where
  "save_progress d progress saved_at =
     d\<lparr>db_progress :=
         map (\<lambda>r. if p_id r = p_id progress then progress\<lparr>p_updated_at := saved_at\<rparr> else r)
           (db_progress d)\<rparr>"

section \<open>\<open>LearningPath.completion_percentage\<close>\<close>

text \<open>
  \<open>round(x, 2)\<close> of a float: the exact value is rounded to hundredths, a tie to the even
  one, and the result is the double nearest to that decimal.
\<close>

definition py_round2 :: "rat \<Rightarrow> rat" where
  "py_round2 x = rd (of_int (py_round (x * 100)) / 100)"

definition total_content :: "db \<Rightarrow> int \<Rightarrow> nat" where
  "total_content d path_id =
     length (filter (\<lambda>a. ca_learning_path_id a = path_id) (db_content_assignments d))"

definition completed_content :: "db \<Rightarrow> int \<Rightarrow> nat" where
  "completed_content d path_id =
     length (filter (\<lambda>p. p_learning_path_id p = path_id \<and> p_completed_at p \<noteq> None)
               (db_progress d))"

definition completion_percentage :: "db \<Rightarrow> int \<Rightarrow> rat" where
  "completion_percentage d path_id =
     (if total_content d path_id = 0 then 0
      else py_round2
             (rd (rd (of_nat (completed_content d path_id) / of_nat (total_content d path_id)) * 100)))"

section \<open>\<open>update_progress\<close>\<close>

text \<open>\<open>ProgressInputSchema\<close>: \<open>None\<close> is a field the caller did not give.\<close>

record progress_input =
  in_status :: "pystr option"
  in_completion_percentage :: "rat option"
  in_time_spent_minutes :: "int option"
  in_mastery_level :: "rat option"
  in_score :: "rat option"

text \<open>
  The assignments of \<open>update_progress\<close> to the row it loaded; \<open>now\<close> is what
  \<open>datetime.now()\<close> returns. An empty status string is falsy.
\<close>

definition set_status :: "progress \<Rightarrow> pystr option \<Rightarrow> timestamp \<Rightarrow> progress" where
  "set_status progress status now =
     (case status of
        None \<Rightarrow> progress
      | Some s \<Rightarrow>
          if s = [] then progress
          else if s = py ''in_progress'' \<and> p_started_at progress = None
          then progress\<lparr>p_status := s, p_started_at := Some now\<rparr>
          else if s = py ''completed'' \<and> p_completed_at progress = None
          then progress\<lparr>p_status := s, p_completed_at := Some now\<rparr>
          else progress\<lparr>p_status := s\<rparr>)"

definition update_fields :: "progress \<Rightarrow> progress_input \<Rightarrow> timestamp \<Rightarrow> progress" where
  "update_fields progress payload now =
     (let p1 = set_status progress (in_status payload) now;
          p2 = (case in_completion_percentage payload of
                  None \<Rightarrow> p1 | Some v \<Rightarrow> p1\<lparr>p_completion_percentage := v\<rparr>);
          p3 = (case in_time_spent_minutes payload of
                  None \<Rightarrow> p2 | Some v \<Rightarrow> p2\<lparr>p_time_spent_minutes := v\<rparr>);
          p4 = (case in_mastery_level payload of
                  None \<Rightarrow> p3 | Some v \<Rightarrow> p3\<lparr>p_mastery_level := v\<rparr>);
          p5 = (case in_score payload of
                  None \<Rightarrow> p4 | Some v \<Rightarrow> p4\<lparr>p_score := Some v\<rparr>)
      in p5)"

text \<open>
  The handler: what it answers (an error, or the row as saved) and the store it leaves.
\<close>

definition update_progress ::
  "db \<Rightarrow> int \<Rightarrow> progress_input \<Rightarrow> timestamp \<Rightarrow> timestamp \<Rightarrow> (error + progress) \<times> db" where
  "update_progress d progress_id payload now saved_at =
     (case get_object_or_404 p_id (db_progress d) progress_id of
        Inl e \<Rightarrow> (Inl e, d)
      | Inr progress \<Rightarrow>
          (let progress' = update_fields progress payload now
           in (Inr (progress'\<lparr>p_updated_at := saved_at\<rparr>), save_progress d progress' saved_at)))"

section \<open>\<open>submit_assessment\<close>\<close>

record assessment_input =
  ai_student_id :: int
  ai_learning_path_id :: "int option"
  ai_answers :: "pystr \<rightharpoonup> json"
  ai_started_at :: timestamp
  ai_submitted_at :: timestamp

text \<open>\<open>int(x)\<close> of a float: towards zero.\<close>

definition py_int :: "rat \<Rightarrow> int" where
  "py_int x = (if x \<ge> 0 then \<lfloor>x\<rfloor> else - \<lfloor>- x\<rfloor>)"

definition time_taken_of :: "timestamp \<Rightarrow> timestamp \<Rightarrow> int" where
  "time_taken_of started_at submitted_at =
     py_int (rd (rd (of_int (submitted_at - started_at) / 1000000) / 60))"

text \<open>
  \<open>', '.join(questions_missed)\<close> in \<open>generate_assessment_feedback\<close>, which is outside
  the \<open>try\<close>: an item that is not a string raises \<open>TypeError\<close>.
\<close>

fun str_items :: "json list \<Rightarrow> error + pystr list" where
  "str_items [] = Inr []"
| "str_items (JStr s # rest) = (case str_items rest of Inl e \<Rightarrow> Inl e | Inr ss \<Rightarrow> Inr (s # ss))"
| "str_items (_ # rest) = Inl TypeError"

text \<open>
  \<open>grok_service.generate_assessment_feedback\<close>. What it returns comes from the external
  service, whose \<open>message.content\<close> may be \<open>None\<close>, or from a fallback that formats a
  float; \<open>feedback\<close> stands for both, given the score, the subject and the joined
  missed questions.
\<close>

definition generate_assessment_feedback ::
  "(rat \<Rightarrow> pystr \<Rightarrow> pystr option \<Rightarrow> pystr option) \<Rightarrow> rat \<Rightarrow> pystr \<Rightarrow> json list option \<Rightarrow>
   error + pystr option" where
  "generate_assessment_feedback feedback score subject questions_missed =
     (case questions_missed of
        None \<Rightarrow> Inr (feedback score subject None)
      | Some qs \<Rightarrow>
          if qs = [] then Inr (feedback score subject None)
          else (case str_items qs of
                  Inl e \<Rightarrow> Inl e
                | Inr ss \<Rightarrow> Inr (feedback score subject (Some (join (py '', '') ss)))))"

text \<open>
  The last block of \<open>submit_assessment\<close>: the progress row of the student, the learning
  path and the assessment's content, if the submission names a learning path and the
  assessment a content. \<open>DoesNotExist\<close> is passed over.
\<close>

definition progress_matches :: "int \<Rightarrow> int \<Rightarrow> int \<Rightarrow> progress \<Rightarrow> bool" where
  "progress_matches student_id learning_path_id content_id p =
     (p_student_id p = student_id \<and> p_learning_path_id p = learning_path_id
      \<and> p_content_id p = content_id)"

definition apply_result :: "progress \<Rightarrow> rat \<Rightarrow> bool \<Rightarrow> timestamp \<Rightarrow> progress" where
  "apply_result progress score passed now =
     (let p = progress\<lparr>p_score := Some score, p_mastery_level := score\<rparr>
      in if passed
         then p\<lparr>p_status := py ''completed'', p_completed_at := Some now,
                p_completion_percentage := 100\<rparr>
         else p\<lparr>p_status := py ''needs_review''\<rparr>)"

definition update_linked_progress ::
  "db \<Rightarrow> int \<Rightarrow> int option \<Rightarrow> int option \<Rightarrow> rat \<Rightarrow> bool \<Rightarrow> timestamp \<Rightarrow> timestamp \<Rightarrow> error + db" where
  "update_linked_progress d student_id learning_path_id content_id score passed now saved_at =
     (case (learning_path_id, content_id) of
        (Some l, Some c) \<Rightarrow>
          if l \<noteq> 0
          then (case filter (progress_matches student_id l c) (db_progress d) of
                  [] \<Rightarrow> Inr d
                | [progress] \<Rightarrow> Inr (save_progress d (apply_result progress score passed now) saved_at)
                | _ \<Rightarrow> Inl MultipleObjectsReturned)
          else Inr d
      | _ \<Rightarrow> Inr d)"

text \<open>
  \<open>AssessmentResult.objects.create\<close>: the store refuses a learning path id that names
  no row. \<open>ai_feedback\<close> is a column without null, so the store refuses \<open>None\<close> there
  as well; the handler below has that case before the row is built.
\<close>

definition create_result :: "db \<Rightarrow> assessment_result \<Rightarrow> error + db" where
  "create_result d result =
     (case r_learning_path_id result of
        None \<Rightarrow> Inr (d\<lparr>db_results := db_results d @ [result]\<rparr>)
      | Some l \<Rightarrow>
          if l \<in> set (map lp_id (db_learning_paths d))
          then Inr (d\<lparr>db_results := db_results d @ [result]\<rparr>)
          else Inl IntegrityError)"

text \<open>
  The handler: what it answers and the store it leaves. The result row is written before
  the progress row is looked up, so it stays when that lookup fails.
\<close>

definition submit_assessment ::
  "(rat \<Rightarrow> pystr \<Rightarrow> pystr option \<Rightarrow> pystr option) \<Rightarrow> db \<Rightarrow> int \<Rightarrow> assessment_input \<Rightarrow>
   timestamp \<Rightarrow> timestamp \<Rightarrow> (error + assessment_result) \<times> db" where
  "submit_assessment feedback d assessment_id payload now saved_at =
     (case get_object_or_404 a_id (db_assessments d) assessment_id of
        Inl e \<Rightarrow> (Inl e, d)
      | Inr assessment \<Rightarrow>
     (case get_object_or_404 s_id (db_students d) (ai_student_id payload) of
        Inl e \<Rightarrow> (Inl e, d)
      | Inr student \<Rightarrow>
          (let score = score_of (a_questions assessment) (ai_answers payload);
               passed = passed_of score (a_passing_score assessment);
               time_taken = time_taken_of (ai_started_at payload) (ai_submitted_at payload);
               questions_missed = questions_missed_of (a_questions assessment) (ai_answers payload)
           in case generate_assessment_feedback feedback score (a_subject_name assessment)
                     (if questions_missed \<noteq> [] then Some questions_missed else None) of
                Inl e \<Rightarrow> (Inl e, d)
              | Inr None \<Rightarrow> (Inl IntegrityError, d)
              | Inr (Some ai_feedback) \<Rightarrow>
                  (let result =
                         \<lparr>r_student_id = s_id student, r_assessment_id = a_id assessment,
                          r_learning_path_id = ai_learning_path_id payload,
                          r_answers = ai_answers payload, r_score = score, r_passed = passed,
                          r_started_at = ai_started_at payload,
                          r_submitted_at = ai_submitted_at payload,
                          r_time_taken_minutes = time_taken, r_feedback = [],
                          r_ai_feedback = ai_feedback, r_graded = True\<rparr>
                   in case create_result d result of
                        Inl e \<Rightarrow> (Inl e, d)
                      | Inr d1 \<Rightarrow>
                          (case update_linked_progress d1 (s_id student)
                                  (ai_learning_path_id payload) (a_content_id assessment)
                                  score passed now saved_at of
                             Inl e \<Rightarrow> (Inl e, d1)
                           | Inr d2 \<Rightarrow> (Inr result, d2))))))"

section \<open>Sequences of calls\<close>

text \<open>
  The two handlers that write progress rows, and a run of calls against the store, each
  call with the clock readings it makes.
\<close>

datatype call =
  Update_progress int progress_input timestamp timestamp
| Submit_assessment int assessment_input timestamp timestamp

fun step :: "(rat \<Rightarrow> pystr \<Rightarrow> pystr option \<Rightarrow> pystr option) \<Rightarrow> db \<Rightarrow> call \<Rightarrow> db" where
  "step feedback d (Update_progress i payload now saved_at) =
     snd (update_progress d i payload now saved_at)"
| "step feedback d (Submit_assessment i payload now saved_at) =
     snd (submit_assessment feedback d i payload now saved_at)"

definition run :: "(rat \<Rightarrow> pystr \<Rightarrow> pystr option \<Rightarrow> pystr option) \<Rightarrow> db \<Rightarrow> call list \<Rightarrow> db" where
  "run feedback d calls = foldl (step feedback) d calls"

text \<open>The progress row \<open>create_learning_path\<close> makes: every other field at its default.\<close>

definition new_progress :: "int \<Rightarrow> int \<Rightarrow> int \<Rightarrow> int \<Rightarrow> timestamp \<Rightarrow> progress" where
  "new_progress i student_id learning_path_id content_id created =
     \<lparr>p_id = i, p_student_id = student_id, p_learning_path_id = learning_path_id,
      p_content_id = content_id, p_status = py ''not_started'', p_completion_percentage = 0,
      p_time_spent_minutes = 0, p_started_at = None, p_completed_at = None,
      p_mastery_level = 0, p_score = None, p_updated_at = created\<rparr>"

definition empty_db :: db where
  "empty_db =
     \<lparr>db_students = [], db_contents = [], db_learning_paths = [], db_content_assignments = [],
      db_assessments = [], db_progress = [], db_results = [], db_sessions = []\<rparr>"

section \<open>The external service\<close>

text \<open>
  One call of \<open>client.chat.completions.create\<close>: the request it is given, and what
  comes back, an exception with its message (\<open>str(e)\<close>) or the \<open>message.content\<close> of
  each choice. The client is a function from requests to outcomes, and every function
  that may call it also returns the list of the requests it made.
\<close>

record request =
  rq_model :: string
  rq_messages :: "(string \<times> pystr) list"
  rq_temperature :: rat
  rq_max_tokens :: nat
  rq_timeout :: "rat option"

datatype outcome = Raises pystr | Returns "pystr option list"

text \<open>
  The tables of Python's Unicode database that the code reads through \<open>str.isdigit\<close> and
  \<open>str.lower\<close> are not part of the repository; they are a parameter.
\<close>

record unicode =
  u_isdigit :: "nat \<Rightarrow> bool"
  u_lower :: "pystr \<Rightarrow> pystr"

text \<open>The two tables on ASCII.\<close>

definition ascii :: unicode where
  "ascii =
     \<lparr>u_isdigit = (\<lambda>c. 48 \<le> c \<and> c \<le> 57),
      u_lower = map (\<lambda>c. if 65 \<le> c \<and> c \<le> 90 then c + 32 else c)\<rparr>"

section \<open>\<open>GrokService.chat\<close>\<close>

definition msg_no_question :: pystr where
  "msg_no_question = py ''I didn't receive a question. What would you like to know?''"

definition msg_redirect :: pystr where
  "msg_redirect = py ''I'd be happy to help with your studies! Could you rephrase your question or ask about a specific topic you're learning?''"

definition msg_timeout :: pystr where
  "msg_timeout = py ''I'm taking a bit longer to think. Could you try asking your question again?''"

definition msg_auth :: pystr where
  "msg_auth = py ''I'm having trouble connecting to my knowledge base. Please let your teacher know.''"

definition msg_rate_limit :: pystr where
  "msg_rate_limit = py ''I'm getting too many questions right now. Please wait a moment and try again.''"

definition msg_generic :: pystr where
  "msg_generic = py ''I encountered an issue, but I'm here to help! Could you try rephrasing your question?''"

text \<open>The \<open>except\<close> branch of \<open>chat\<close>, on the message of the exception.\<close>

definition fallback_response :: "unicode \<Rightarrow> pystr \<Rightarrow> pystr" where
  "fallback_response U e =
     (if contains (py ''timeout'') (u_lower U e) then msg_timeout
      else if contains (py ''api_key'') (u_lower U e) \<or> contains (py ''authentication'') (u_lower U e)
      then msg_auth
      else if contains (py ''rate_limit'') (u_lower U e) then msg_rate_limit
      else msg_generic)"

text \<open>A value of the context dict inside an f-string.\<close>

fun fmt :: "cval \<Rightarrow> pystr" where
  "fmt (CInt n) = str_int n"
| "fmt (CStr s) = s"

definition add_fact :: "(string \<times> cval) list \<Rightarrow> string \<Rightarrow> pystr \<Rightarrow> pystr \<Rightarrow> pystr" where
  "add_fact student_context key before system_message =
     (case map_of student_context key of
        None \<Rightarrow> system_message
      | Some v \<Rightarrow> system_message @ before @ fmt v @ py ''. '')"

definition system_message_of :: "(string \<times> cval) list \<Rightarrow> pystr option \<Rightarrow> pystr" where
  "system_message_of student_context system_context =
     (let m0 = py ''You are an AI Learning Mentor helping students with their studies. ''
               @ py ''You should be encouraging, patient, and provide clear explanations tailored to the student's level. ''
               @ py ''Keep responses concise (2-3 paragraphs) and actionable. '';
          m1 = (if student_context \<noteq> []
                then add_fact student_context ''difficulty'' (py ''The difficulty level is '')
                      (add_fact student_context ''subject'' (py ''They are currently studying '')
                        (add_fact student_context ''student_grade'' (py ''The student is in grade '')
                          (add_fact student_context ''student_name'' (py ''Address the student as '') m0)))
                else m0)
      in case system_context of
           None \<Rightarrow> m1
         | Some c \<Rightarrow> if c = [] then m1 else m1 @ [10, 10] @ py ''Current learning context: '' @ c)"

definition chat_request :: "pystr \<Rightarrow> pystr option \<Rightarrow> (string \<times> cval) list \<Rightarrow> request" where
  "chat_request user_message system_context student_context =
     \<lparr>rq_model = ''grok-4-latest'',
      rq_messages = [(''system'', system_message_of student_context system_context),
                     (''user'', user_message)],
      rq_temperature = 7 / 10, rq_max_tokens = 500, rq_timeout = Some 15\<rparr>"

text \<open>
  The \<open>try\<close> block once the call has returned: the two \<open>ValueError\<close>s it raises itself
  go through the same \<open>except\<close> branch.
\<close>

definition chat_response :: "unicode \<Rightarrow> pystr option list \<Rightarrow> pystr" where
  "chat_response U choices =
     (case choices of
        [] \<Rightarrow> fallback_response U (py ''No response choices returned from API'')
      | None # _ \<Rightarrow> fallback_response U (py ''Empty response content from API'')
      | Some response_content # _ \<Rightarrow>
          if response_content = [] \<or> strip response_content = []
          then fallback_response U (py ''Empty response content from API'')
          else if contains (py ''i cannot'') (u_lower U response_content)
                  \<or> contains (py ''i'm unable to'') (u_lower U response_content)
                  \<or> contains (py ''against my programming'') (u_lower U response_content)
          then msg_redirect
          else strip response_content)"

definition chat ::
  "unicode \<Rightarrow> (request \<Rightarrow> outcome) \<Rightarrow> pystr \<Rightarrow> pystr option \<Rightarrow> (string \<times> cval) list \<Rightarrow>
   pystr \<times> request list" where
  "chat U client user_message system_context student_context =
     (if user_message = [] \<or> strip user_message = [] then (msg_no_question, [])
      else (let req = chat_request user_message system_context student_context
            in (case client req of
                  Raises e \<Rightarrow> fallback_response U e
                | Returns choices \<Rightarrow> chat_response U choices,
                [req])))"

section \<open>\<open>GrokService.generate_personalized_goals\<close>\<close>

text \<open>
  The objects \<open>student_grade\<close> may be: an \<open>int\<close>, a \<open>bool\<close> (an \<open>int\<close> for
  \<open>isinstance\<close>, of value 0 or 1), or anything else.
\<close>

datatype pyobj = PyInt int | PyBool bool | PyOther

fun int_value :: "pyobj \<Rightarrow> int option" where
  "int_value (PyInt n) = Some n"
| "int_value (PyBool b) = Some (if b then 1 else 0)"
| "int_value PyOther = None"

fun obj_str :: "pyobj \<Rightarrow> pystr" where
  "obj_str (PyInt n) = str_int n"
| "obj_str (PyBool b) = (if b then py ''True'' else py ''False'')"
| "obj_str PyOther = []"

definition get_fallback_goals :: "pystr \<Rightarrow> pystr \<Rightarrow> pystr list" where
  "get_fallback_goals subject difficulty =
     (let subject_name = (if subject \<noteq> [] then subject else py ''the subject'')
      in [py ''Understand and master core concepts in '' @ subject_name,
          py ''Complete all assigned content at '' @ difficulty @ py '' level with 80%+ accuracy'',
          py ''Apply '' @ subject_name @ py '' knowledge to solve real-world problems'',
          py ''Demonstrate mastery through assessments and projects''])"

definition goals_prompt :: "pyobj \<Rightarrow> pystr \<Rightarrow> pystr \<Rightarrow> pystr" where
  "goals_prompt student_grade subject difficulty =
     py ''Generate exactly 4 specific, measurable, and achievable learning goals for a grade ''
     @ obj_str student_grade @ py '' student'' @ [10]
     @ py ''studying '' @ subject @ py '' at a '' @ difficulty
     @ py '' level. Each goal should be:'' @ [10]
     @ py ''- One clear sentence'' @ [10]
     @ py ''- Grade-appropriate'' @ [10]
     @ py ''- Focused on mastery and understanding'' @ [10]
     @ py ''- Actionable for the student'' @ [10, 10]
     @ py ''Format: Return ONLY a bulleted list with exactly 4 goals, each starting with a dash (-).''"

definition goals_request :: "pyobj \<Rightarrow> pystr \<Rightarrow> pystr \<Rightarrow> request" where
  "goals_request student_grade subject difficulty =
     \<lparr>rq_model = ''grok-4-latest'',
      rq_messages =
        [(''system'', py ''You are an expert educational curriculum designer creating personalized learning goals.''),
         (''user'', goals_prompt student_grade subject difficulty)],
      rq_temperature = 8 / 10, rq_max_tokens = 400, rq_timeout = Some 10\<rparr>"

text \<open>
  The test on a stripped line: it starts with \<open>-\<close>, \<open>*\<close> or the bullet U+2022, or with
  a digit and has a \<open>.\<close> among its first three characters.
\<close>

definition is_bullet :: "unicode \<Rightarrow> pystr \<Rightarrow> bool" where
  "is_bullet U line =
     (case line of
        [] \<Rightarrow> False
      | c # _ \<Rightarrow> c = 45 \<or> c = 42 \<or> c = 8226 \<or> (u_isdigit U c \<and> 46 \<in> set (take 3 line)))"

text \<open>\<open>line.lstrip('-*\<bullet>0123456789. ').strip()\<close>, the bullet being U+2022.\<close>

definition clean_goal :: "pystr \<Rightarrow> pystr" where
  "clean_goal line = strip (lstrip ([45, 42, 8226] @ py ''0123456789. '') line)"

text \<open>The loop over the lines, \<open>goals\<close> its accumulator.\<close>

fun collect_goals :: "unicode \<Rightarrow> pystr list \<Rightarrow> pystr list \<Rightarrow> pystr list" where
  "collect_goals U [] goals = goals"
| "collect_goals U (l # lines) goals =
     (let line = strip l
      in if is_bullet U line
         then (let goal = clean_goal line
               in if goal \<noteq> [] \<and> length goal > 10
                  then collect_goals U lines (goals @ [goal])
                  else collect_goals U lines goals)
         else collect_goals U lines goals)"

text \<open>The \<open>try\<close> block once the call has returned.\<close>

definition goals_response :: "unicode \<Rightarrow> pystr \<Rightarrow> pystr \<Rightarrow> pystr option list \<Rightarrow> pystr list" where
  "goals_response U subject difficulty choices =
     (case choices of
        [] \<Rightarrow> get_fallback_goals subject difficulty
      | None # _ \<Rightarrow> get_fallback_goals subject difficulty
      | Some response # _ \<Rightarrow>
          if response = [] \<or> strip response = [] then get_fallback_goals subject difficulty
          else (let goals = collect_goals U (split_on 10 response) []
                in if length goals \<ge> 3 then take 5 goals
                   else get_fallback_goals subject difficulty))"

definition generate_personalized_goals ::
  "unicode \<Rightarrow> (request \<Rightarrow> outcome) \<Rightarrow> pyobj \<Rightarrow> pystr \<Rightarrow> pystr \<Rightarrow> pystr list \<times> request list" where
  "generate_personalized_goals U client student_grade subject difficulty =
     (case int_value student_grade of
        None \<Rightarrow> (get_fallback_goals subject difficulty, [])
      | Some n \<Rightarrow>
          if subject = [] \<or> n < 1 then (get_fallback_goals subject difficulty, [])
          else (let req = goals_request student_grade subject difficulty
                in (case client req of
                      Raises e \<Rightarrow> get_fallback_goals subject difficulty
                    | Returns choices \<Rightarrow> goals_response U subject difficulty choices,
                    [req])))"

section \<open>\<open>chat_with_ai_mentor\<close>\<close>

record mentor_input =
  mi_student_id :: int
  mi_learning_path_id :: "int option"
  mi_content_id :: "int option"
  mi_session_type :: pystr
  mi_query :: pystr

text \<open>The format \<open>.0f\<close> of a float.\<close>

definition fmt0 :: "rat \<Rightarrow> pystr" where
  "fmt0 x = (if x < 0 then 45 # digits (nat (py_round (- x))) else digits (nat (py_round x)))"

text \<open>
  The queryset \<open>progress_records\<close>: the rows of the student and the path, latest
  \<open>updated_at\<close> first as the model's \<open>Meta.ordering\<close> says, rows of equal time in the
  order of the store.
\<close>

definition progress_records :: "db \<Rightarrow> int \<Rightarrow> int \<Rightarrow> progress list" where
  "progress_records d student_id path_id =
     sort_key (\<lambda>p. - p_updated_at p)
       (filter (\<lambda>p. p_student_id p = student_id \<and> p_learning_path_id p = path_id) (db_progress d))"

text \<open>
  \<open>p.content.title\<close> over the first three rows of a queryset joined with its contents; a
  row's content exists by the foreign key, and the join leaves out a row without one.
\<close>

definition content_title :: "db \<Rightarrow> int \<Rightarrow> pystr option" where
  "content_title d i =
     (case filter (\<lambda>c. c_id c = i) (db_contents d) of [] \<Rightarrow> None | c # _ \<Rightarrow> Some (c_title c))"

definition topic_titles :: "db \<Rightarrow> progress list \<Rightarrow> pystr list" where
  "topic_titles d rows = take 3 (List.map_filter (\<lambda>p. content_title d (p_content_id p)) rows)"

definition progress_parts :: "db \<Rightarrow> progress list \<Rightarrow> pystr list" where
  "progress_parts d records =
     (if records = [] then []
      else (let completed_count = length (filter (\<lambda>p. p_status p = py ''completed'') records);
                in_progress_count = length (filter (\<lambda>p. p_status p = py ''in_progress'') records);
                avg_mastery = sum_list (map p_mastery_level records) / of_nat (length records);
                struggling = filter (\<lambda>p. p_mastery_level p < 60) records;
                strengths = filter (\<lambda>p. p_mastery_level p \<ge> 80) records
            in [py ''Progress: '' @ str_int (int completed_count) @ py '' items completed, ''
                @ str_int (int in_progress_count) @ py '' in progress. ''
                @ py ''Average mastery: '' @ fmt0 avg_mastery @ py ''%.'']
               @ (if struggling \<noteq> []
                  then [py ''Areas needing support: '' @ join (py '', '') (topic_titles d struggling)
                        @ py ''.'']
                  else [])
               @ (if strengths \<noteq> []
                  then [py ''Strong areas: '' @ join (py '', '') (topic_titles d strengths) @ py ''.'']
                  else [])))"

text \<open>The block for a learning path: its entries of \<open>context_data\<close> and its parts.\<close>

definition path_context ::
  "db \<Rightarrow> student \<Rightarrow> int option \<Rightarrow> error + ((string \<times> cval) list \<times> pystr list)" where
  "path_context d student learning_path_id =
     (case learning_path_id of
        None \<Rightarrow> Inr ([], [])
      | Some l \<Rightarrow>
          if l = 0 then Inr ([], [])
          else (case get_object_or_404 lp_id (db_learning_paths d) l of
                  Inl e \<Rightarrow> Inl e
                | Inr learning_path \<Rightarrow>
                    Inr ([(''subject'', CStr (lp_subject_name learning_path)),
                          (''difficulty'', CStr (lp_difficulty_level learning_path))],
                         [py ''The student is working on: '' @ [39] @ lp_title learning_path @ [39]
                          @ py '' (Completion: ''
                          @ fmt0 (completion_percentage d (lp_id learning_path)) @ py ''%)'']
                         @ progress_parts d
                             (progress_records d (s_id student) (lp_id learning_path)))))"

text \<open>The block for the content being viewed.\<close>

definition content_context ::
  "db \<Rightarrow> int option \<Rightarrow> error + ((string \<times> cval) list \<times> pystr list)" where
  "content_context d content_id =
     (case content_id of
        None \<Rightarrow> Inr ([], [])
      | Some i \<Rightarrow>
          if i = 0 then Inr ([], [])
          else (case get_object_or_404 c_id (db_contents d) i of
                  Inl e \<Rightarrow> Inl e
                | Inr content \<Rightarrow>
                    Inr ([(''current_content'', CStr (c_title content)),
                          (''content_type'', CStr (c_content_type content))],
                         [py ''The student is currently viewing: '' @ [39] @ c_title content @ [39]
                          @ py '' ('' @ c_content_type content @ py ''). ''
                          @ py ''Focus your help on this specific content.''])))"

text \<open>
  The context bundle: \<open>context_data\<close>, a dict in insertion order, and \<open>system_context\<close>.
\<close>

definition context_bundle ::
  "db \<Rightarrow> mentor_input \<Rightarrow> error + ((string \<times> cval) list \<times> pystr option)" where
  "context_bundle d payload =
     (case get_object_or_404 s_id (db_students d) (mi_student_id payload) of
        Inl e \<Rightarrow> Inl e
      | Inr student \<Rightarrow>
     (case path_context d student (mi_learning_path_id payload) of
        Inl e \<Rightarrow> Inl e
      | Inr (path_data, path_parts) \<Rightarrow>
     (case content_context d (mi_content_id payload) of
        Inl e \<Rightarrow> Inl e
      | Inr (content_data, content_parts) \<Rightarrow>
          (let context_data =
                 [(''student_grade'', CInt (s_grade_level student)),
                  (''student_name'', CStr (s_first_name student))] @ path_data @ content_data;
               system_context_parts = path_parts @ content_parts
           in Inr (context_data,
                   if system_context_parts \<noteq> [] then Some (join (py '' '') system_context_parts)
                   else None)))))"

text \<open>
  \<open>AIMentorSession.objects.create\<close>: the store refuses a learning path id that names no
  row.
\<close>

definition create_session :: "db \<Rightarrow> mentor_session \<Rightarrow> error + db" where
  "create_session d session =
     (case m_learning_path_id session of
        None \<Rightarrow> Inr (d\<lparr>db_sessions := db_sessions d @ [session]\<rparr>)
      | Some l \<Rightarrow>
          if l \<in> set (map lp_id (db_learning_paths d))
          then Inr (d\<lparr>db_sessions := db_sessions d @ [session]\<rparr>)
          else Inl IntegrityError)"

text \<open>The handler: what it answers and the store it leaves.\<close>

definition chat_with_ai_mentor ::
  "unicode \<Rightarrow> (request \<Rightarrow> outcome) \<Rightarrow> db \<Rightarrow> mentor_input \<Rightarrow> (error + mentor_session) \<times> db" where
  "chat_with_ai_mentor U client d payload =
     (case context_bundle d payload of
        Inl e \<Rightarrow> (Inl e, d)
      | Inr (context_data, system_context) \<Rightarrow>
          (let response_text = fst (chat U client (mi_query payload) system_context context_data);
               session =
                 \<lparr>m_student_id = mi_student_id payload,
                  m_learning_path_id = mi_learning_path_id payload,
                  m_session_type = mi_session_type payload, m_query = mi_query payload,
                  m_response = response_text, m_context_data = context_data\<rparr>
           in case create_session d session of
                Inl e \<Rightarrow> (Inl e, d)
              | Inr d' \<Rightarrow> (Inr session, d')))"

text \<open>
  The cleaned bullet items of a response, before the test on their length: the stripped
  lines that pass the bullet test, each cleaned as the loop does.
\<close>

definition cleaned_items :: "unicode \<Rightarrow> pystr \<Rightarrow> pystr list" where
  "cleaned_items U response =
     map clean_goal (filter (is_bullet U) (map strip (split_on 10 response)))"

text \<open>A client that gives the same outcome to every request, and data of the scenarios.\<close>

definition always :: "outcome \<Rightarrow> request \<Rightarrow> outcome" where
  "always out req = out"

definition ten_char_response :: pystr where
  "ten_char_response = py ''- abcdefghij'' @ [10] @ py ''- klmnopqrst'' @ [10] @ py ''- uvwxyzabcd''"

definition two_goal_response :: pystr where
  "two_goal_response =
     py ''Here are the goals:'' @ [10] @ py ''- Learn fractions well'' @ [10] @ py ''- Short'' @ [10]
     @ py ''2. Practise long division''"



definition path_db :: db where
  "path_db =
     empty_db\<lparr>db_students := [\<lparr>s_id = 1, s_first_name = py ''Ada'', s_grade_level = 7\<rparr>],
               db_contents := [\<lparr>c_id = 1, c_title = py ''Halves'', c_content_type = py ''lesson''\<rparr>,
                               \<lparr>c_id = 2, c_title = py ''Thirds'', c_content_type = py ''quiz''\<rparr>],
               db_learning_paths := [\<lparr>lp_id = 1, lp_title = py ''Fractions'', lp_subject_name = py ''Math'',
                                      lp_difficulty_level = py ''beginner''\<rparr>],
               db_content_assignments := [\<lparr>ca_learning_path_id = 1, ca_content_id = 1\<rparr>,
                                          \<lparr>ca_learning_path_id = 1, ca_content_id = 2\<rparr>],
               db_progress := [(new_progress 1 1 1 1 5)\<lparr>p_status := py ''completed'', p_completed_at := Some 5,
                                   p_mastery_level := 90\<rparr>,
                               (new_progress 2 1 1 2 3)\<lparr>p_mastery_level := 45\<rparr>]\<rparr>"

definition path_query :: "string \<Rightarrow> mentor_input" where
  "path_query q =
     \<lparr>mi_student_id = 1, mi_learning_path_id = Some 1, mi_content_id = Some 2,
      mi_session_type = py ''help'', mi_query = py q\<rparr>"

definition path_bundle :: "(string \<times> cval) list \<times> pystr option" where
  "path_bundle =
     ([(''student_grade'', CInt 7), (''student_name'', CStr (py ''Ada'')),
       (''subject'', CStr (py ''Math'')), (''difficulty'', CStr (py ''beginner'')),
       (''current_content'', CStr (py ''Thirds'')), (''content_type'', CStr (py ''quiz''))],
      Some (py ''The student is working on: '' @ [39] @ py ''Fractions'' @ [39]
            @ py '' (Completion: 50%) Progress: 1 items completed, 0 in progress. Average mastery: 68%. Areas needing support: Thirds. Strong areas: Halves. The student is currently viewing: ''
            @ [39] @ py ''Thirds'' @ [39]
            @ py '' (quiz). Focus your help on this specific content.''))"

text \<open>Data of the scenarios: a store with one fresh progress row, and scenario B.\<close>

definition no_feedback :: "rat \<Rightarrow> pystr \<Rightarrow> pystr option \<Rightarrow> pystr option" where
  "no_feedback score subject missed = Some []"

definition status_only :: "string \<Rightarrow> progress_input" where
  "status_only s =
     \<lparr>in_status = Some (py s), in_completion_percentage = None, in_time_spent_minutes = None,
      in_mastery_level = None, in_score = None\<rparr>"

definition one_row_db :: db where
  "one_row_db = empty_db\<lparr>db_progress := [new_progress 1 1 1 1 0]\<rparr>"

definition scenario_b_db :: db where
  "scenario_b_db =
     empty_db\<lparr>db_content_assignments :=
                 [\<lparr>ca_learning_path_id = 1, ca_content_id = 1\<rparr>,
                  \<lparr>ca_learning_path_id = 1, ca_content_id = 2\<rparr>,
                  \<lparr>ca_learning_path_id = 1, ca_content_id = 3\<rparr>],
               db_progress :=
                 [(new_progress 1 1 1 1 0)\<lparr>p_completed_at := Some 5\<rparr>,
                  (new_progress 2 1 1 2 0)\<lparr>p_completed_at := Some 6\<rparr>,
                  new_progress 3 1 1 3 0]\<rparr>"





text \<open>A learning path with 160 content assignments, 23 of its progress rows completed.\<close>

definition tie_db :: db where
  "tie_db =
     empty_db\<lparr>db_content_assignments :=
                 map (\<lambda>i. \<lparr>ca_learning_path_id = 1, ca_content_id = i\<rparr>) [1..160],
               db_progress :=
                 map (\<lambda>i. (new_progress i 1 1 i 0)\<lparr>p_completed_at := (if i \<le> 23 then Some 5 else None)\<rparr>)
                   [1..160]\<rparr>"

text \<open>A row that is completed has its completion time.\<close>

definition completed_stamped :: "db \<Rightarrow> bool" where
  "completed_stamped d =
     (\<forall>p \<in> set (db_progress d). p_status p = py ''completed'' \<longrightarrow> p_completed_at p \<noteq> None)"

section \<open>Properties of the floats\<close>

lemma py_round_close: "\<bar>of_int (py_round y) - y\<bar> \<le> 1 / 2"
proof -
  have "of_int \<lfloor>y\<rfloor> \<le> y" "y < of_int \<lfloor>y\<rfloor> + 1" by linarith+
  then show ?thesis by (auto simp: py_round_def Let_def)
qed

lemma py_round_near: "of_int k - 1 / 2 < y \<Longrightarrow> y < of_int k + 1 / 2 \<Longrightarrow> py_round y = k"
proof -
  assume a: "of_int k - 1 / 2 < y" "y < of_int k + 1 / 2"
  have c: "\<bar>of_int (py_round y) - y\<bar> \<le> 1 / 2" by (rule py_round_close)
  have "\<bar>(of_int (py_round y) :: rat) - of_int k\<bar> < 1" using a c by linarith
  then have "\<bar>py_round y - k\<bar> < 1" by (metis of_int_abs of_int_diff of_int_less_1_iff)
  then show ?thesis by simp
qed

lemma py_round_of_int [simp]: "py_round (of_int k) = k"
  by (rule py_round_near) simp_all

lemma rd_small_scale:
  "0 < x \<Longrightarrow> 2 ^ 52 \<le> x * 2 ^ n \<Longrightarrow> x * 2 ^ n < 2 ^ 53 \<Longrightarrow>
   rd_small x = of_int (py_round (x * 2 ^ n)) / 2 ^ n"
proof (induction n arbitrary: x)
  case 0
  then show ?case by (simp add: rd_small.simps [of x])
next
  case (Suc n)
  have "x * 2 * 1 \<le> x * 2 * 2 ^ n" using Suc.prems(1) by (intro mult_left_mono) simp_all
  then have lt: "x < 2 ^ 52" using Suc.prems(3) by (simp add: mult.assoc)
  have "rd_small x = rd_small (2 * x) / 2"
    using Suc.prems(1) lt by (simp add: rd_small.simps [of x])
  also have "rd_small (2 * x) = of_int (py_round (2 * x * 2 ^ n)) / 2 ^ n"
    using Suc.prems by (intro Suc.IH) (simp_all add: mult.assoc mult.left_commute)
  finally show ?case by (simp add: mult.assoc mult.left_commute)
qed

lemma rd_scale:
  "0 < x \<Longrightarrow> 2 ^ 52 \<le> x * 2 ^ n \<Longrightarrow> x * 2 ^ n < 2 ^ 53 \<Longrightarrow> py_round (x * 2 ^ n) = m \<Longrightarrow>
   rd x = of_int m / 2 ^ n"
proof -
  assume a: "0 < x" "2 ^ 52 \<le> x * 2 ^ n" "x * 2 ^ n < 2 ^ 53" "py_round (x * 2 ^ n) = m"
  show ?thesis
  proof (cases "2 ^ 52 \<le> x")
    case True
    have "x * 1 \<le> x * 2 ^ n" using a(1) by (intro mult_left_mono) simp_all
    then have "x < 2 ^ 53" using a(3) by simp
    then have "rd_big x = of_int (py_round x)" by (simp add: rd_big.simps [of x])
    moreover have "rd_small x = of_int (py_round x)" using True by (simp add: rd_small.simps [of x])
    ultimately have "rd x = rd_small x" using a(1) True by (simp add: rd_def)
    then show ?thesis using rd_small_scale [OF a(1-3)] a(4) by simp
  next
    case False
    then have "rd x = rd_small x" using a(1) by (simp add: rd_def)
    then show ?thesis using rd_small_scale [OF a(1-3)] a(4) by simp
  qed
qed

lemma rd_0 [simp]: "rd 0 = 0"
  using py_round_of_int [of 0] by (simp add: rd_def rd_small.simps [of 0])

lemma rd_half: "rd (1 / 2) = 1 / 2"
  using rd_scale [of "1 / 2" 53 "2 ^ 52"] py_round_of_int [of "2 ^ 52"] by simp


lemma rd_50: "rd 50 = 50"
  using rd_scale [of 50 47 "50 * 2 ^ 47"] py_round_of_int [of "50 * 2 ^ 47"] by simp


lemma rd_two_thirds: "rd (2 / 3) = 6004799503160661 / 2 ^ 53"
  using rd_scale [of "2 / 3" 53 6004799503160661] by (simp add: py_round_near)

lemma rd_two_thirds_100: "rd (6004799503160661 / 2 ^ 53 * 100) = 4691249611844266 / 2 ^ 46"
  using rd_scale [of "6004799503160661 / 2 ^ 53 * 100" 46 4691249611844266]
  by (simp add: py_round_near)

lemma round_two_thirds: "py_round (4691249611844266 / 2 ^ 46 * 100) = 6667"
  by (rule py_round_near) simp_all


lemma abs_half: "\<bar>e\<bar> \<le> 2 * b \<Longrightarrow> \<bar>e / 2\<bar> \<le> (b::rat)"
  by linarith

lemma abs_double: "\<bar>e\<bar> \<le> b / 2 \<Longrightarrow> \<bar>2 * e\<bar> \<le> (b::rat)"
  by linarith

lemma abs_tri: "\<bar>x - z\<bar> \<le> e1 \<Longrightarrow> \<bar>z - y\<bar> \<le> e2 \<Longrightarrow> \<bar>x - y\<bar> \<le> e1 + (e2::rat)"
  by linarith

lemma abs_scale100: "\<bar>r - a\<bar> \<le> e \<Longrightarrow> \<bar>r * 100 - a * 100\<bar> \<le> 100 * (e::rat)"
  by linarith

lemma rd_small_err: "0 < x \<Longrightarrow> \<bar>rd_small x - x\<bar> \<le> x / 2 ^ 53"
proof (induction x rule: rd_small.induct)
  case (1 x)
  show ?case
  proof (cases "2 ^ 52 \<le> x")
    case True
    have "\<bar>of_int (py_round x) - x\<bar> \<le> 1 / 2" by (rule py_round_close)
    moreover have "1 / 2 \<le> x / 2 ^ 53" using True by simp
    ultimately show ?thesis using True by (simp add: rd_small.simps [of x])
  next
    case False
    have r: "rd_small x = rd_small (2 * x) / 2"
      using False "1.prems" by (simp add: rd_small.simps [of x])
    have "\<bar>rd_small (2 * x) - 2 * x\<bar> \<le> 2 * x / 2 ^ 53"
      using False "1.prems" by (intro "1.IH") simp_all
    then have "\<bar>rd_small (2 * x) - 2 * x\<bar> \<le> 2 * (x / 2 ^ 53)" by simp
    then have "\<bar>(rd_small (2 * x) - 2 * x) / 2\<bar> \<le> x / 2 ^ 53" by (rule abs_half)
    moreover have "(rd_small (2 * x) - 2 * x) / 2 = rd_small (2 * x) / 2 - x" by simp
    ultimately show ?thesis unfolding r by simp
  qed
qed

lemma rd_big_err: "2 ^ 52 \<le> x \<Longrightarrow> \<bar>rd_big x - x\<bar> \<le> x / 2 ^ 53"
proof (induction x rule: rd_big.induct)
  case (1 x)
  show ?case
  proof (cases "x < 2 ^ 53")
    case True
    have "\<bar>of_int (py_round x) - x\<bar> \<le> 1 / 2" by (rule py_round_close)
    moreover have "1 / 2 \<le> x / 2 ^ 53" using "1.prems" by simp
    ultimately show ?thesis using True by (simp add: rd_big.simps [of x])
  next
    case False
    have r: "rd_big x = 2 * rd_big (x / 2)"
      using False by (simp add: rd_big.simps [of x])
    have "\<bar>rd_big (x / 2) - x / 2\<bar> \<le> x / 2 / 2 ^ 53"
      using False by (intro "1.IH") simp_all
    then have "\<bar>rd_big (x / 2) - x / 2\<bar> \<le> x / 2 ^ 53 / 2" by simp
    then have "\<bar>2 * (rd_big (x / 2) - x / 2)\<bar> \<le> x / 2 ^ 53" by (rule abs_double)
    moreover have "2 * (rd_big (x / 2) - x / 2) = 2 * rd_big (x / 2) - x" by simp
    ultimately show ?thesis unfolding r by simp
  qed
qed

lemma rd_err: "0 \<le> x \<Longrightarrow> \<bar>rd x - x\<bar> \<le> x / 2 ^ 53"
proof (cases "x = 0")
  case True
  then show ?thesis by simp
next
  case False
  assume "0 \<le> x"
  with False have "0 < x" by simp
  then show ?thesis
    using rd_small_err [of x] rd_big_err [of x] by (simp add: rd_def)
qed

lemma rd_nonneg: "0 \<le> x \<Longrightarrow> 0 \<le> rd x"
proof -
  assume a: "0 \<le> x"
  have "x / 2 ^ 53 \<le> x" using a by (simp add: divide_le_eq)
  with rd_err [OF a] show ?thesis by linarith
qed

lemma quotient_err:
  fixes a :: rat
  assumes "0 \<le> a"
  shows "\<bar>rd (rd a * 100) - a * 100\<bar> \<le> a * 100 * (3 / 2 ^ 53)"
proof -
  have q: "\<bar>rd a - a\<bar> \<le> a / 2 ^ 53" using assms by (rule rd_err)
  have q0: "0 \<le> rd a" using assms by (rule rd_nonneg)
  have qu: "rd a \<le> a + a / 2 ^ 53" using q by linarith
  have x: "\<bar>rd (rd a * 100) - rd a * 100\<bar> \<le> rd a * 100 / 2 ^ 53"
    using q0 by (intro rd_err) simp
  have "rd a * 100 / 2 ^ 53 \<le> (a + a / 2 ^ 53) * 100 / 2 ^ 53"
    using qu by (simp add: divide_right_mono)
  with x have x': "\<bar>rd (rd a * 100) - rd a * 100\<bar> \<le> (a + a / 2 ^ 53) * 100 / 2 ^ 53"
    by linarith
  have "\<bar>rd a * 100 - a * 100\<bar> \<le> 100 * (a / 2 ^ 53)"
    using q by (rule abs_scale100)
  with x' have "\<bar>rd (rd a * 100) - a * 100\<bar>
      \<le> (a + a / 2 ^ 53) * 100 / 2 ^ 53 + 100 * (a / 2 ^ 53)"
    by (rule abs_tri)
  also have "\<dots> \<le> a * 100 * (3 / 2 ^ 53)"
    using assms by (simp add: field_simps)
  finally show ?thesis .
qed

lemma hundredths_general:
  fixes a :: rat
  assumes "0 \<le> a"
  shows "\<bar>of_int (py_round (rd (rd a * 100) * 100)) / 100 - a * 100\<bar>
          \<le> 1 / 200 + a * 100 * (3 / 2 ^ 53)"
proof -
  let ?x = "rd (rd a * 100)"
  have "\<bar>of_int (py_round (?x * 100)) - ?x * 100\<bar> \<le> 1 / 2" by (rule py_round_close)
  then have "\<bar>of_int (py_round (?x * 100)) / 100 - ?x\<bar> \<le> 1 / 200" by (simp add: abs_le_iff field_simps)
  with quotient_err [OF assms] show ?thesis by linarith
qed

lemma hundredths_exact:
  fixes c t :: nat
  assumes t: "0 < t" and c: "c < 2 ^ 36"
  shows "\<bar>of_int (py_round (rd (rd (of_nat c / of_nat t) * 100) * 100)) / 100
           - of_nat c / of_nat t * 100\<bar> \<le> (1 / 200 :: rat)"
proof -
  let ?a = "of_nat c / of_nat t :: rat"
  let ?k = "py_round (rd (rd ?a * 100) * 100)"
  have a0: "0 \<le> ?a" by simp
  have T: "(0::rat) < of_nat t" using t by simp
  have g: "\<bar>of_int ?k / 100 - ?a * 100\<bar> \<le> 1 / 200 + ?a * 100 * (3 / 2 ^ 53)"
    using a0 by (rule hundredths_general)
  have cb: "(of_nat c :: rat) < 2 ^ 36" using c by (metis of_nat_less_iff of_nat_numeral of_nat_power)
  have small: "?a * 100 * (3 / 2 ^ 53) < 1 / (200 * of_nat t)"
  proof -
    have "of_nat c * 60000 < (2 ^ 53 :: rat)" using cb by simp
    then have "of_nat c * 60000 * of_nat t < (2 ^ 53 :: rat) * of_nat t"
      using T by (intro mult_strict_right_mono)
    then show ?thesis using T by (simp add: field_simps)
  qed
  define N :: int where "N = 2 * int t * ?k - 20000 * int c"
  have N: "of_int N = (of_int ?k / 100 - ?a * 100) * (200 * of_nat t :: rat)"
    using T by (simp add: N_def field_simps)
  have "\<bar>of_int N :: rat\<bar> = \<bar>of_int ?k / 100 - ?a * 100\<bar> * (200 * of_nat t)"
    unfolding N using T by (simp add: abs_mult)
  also have "\<dots> \<le> (1 / 200 + ?a * 100 * (3 / 2 ^ 53)) * (200 * of_nat t)"
    using g T by (intro mult_right_mono) simp_all
  also have "\<dots> < (1 / 200 + 1 / (200 * of_nat t)) * (200 * of_nat t)"
    using small T by (intro mult_strict_right_mono) simp_all
  also have "\<dots> = of_nat t + 1" using T by (simp add: field_simps)
  finally have "\<bar>of_int N :: rat\<bar> < of_int (int t + 1)" by simp
  then have "\<bar>N\<bar> < int t + 1" by (metis of_int_abs of_int_less_iff)
  then have "\<bar>N\<bar> \<le> int t" by simp
  then have "\<bar>of_int N :: rat\<bar> \<le> of_nat t" by (metis of_int_abs of_int_le_iff of_int_of_nat_eq)
  then have "\<bar>of_int ?k / 100 - ?a * 100\<bar> * (200 * of_nat t) \<le> of_nat t"
    unfolding N using T by (simp add: abs_mult)
  then have "\<bar>of_int ?k / 100 - ?a * 100\<bar> \<le> of_nat t / (200 * of_nat t)"
    using T by (simp add: pos_le_divide_eq)
  then show ?thesis using T by simp
qed


section \<open>Properties of the grading\<close>

lemma count_correct_acc:
  "count_correct qs answers n = n + count_correct qs answers 0"
proof (induction qs arbitrary: n)
  case Nil
  show ?case by simp
next
  case (Cons q qs)
  have step: "count_correct qs answers (Suc n) = Suc n + count_correct qs answers 0"
    using Cons.IH [of "Suc n"] .
  have one: "count_correct qs answers (Suc 0) = Suc 0 + count_correct qs answers 0"
    using Cons.IH [of "Suc 0"] .
  show ?case
    using Cons.IH [of n] step one by (simp split: option.split)
qed

lemma collect_missed_acc:
  "collect_missed qs answers acc =
     acc @ map (\<lambda>q. dict_get (q_question q) (JStr (py ''Unknown question'')))
             (filter (\<lambda>q. case answers (question_id q) of
                             None \<Rightarrow> False
                           | Some a \<Rightarrow> \<not> py_eq a (dict_get (q_correct_answer q) JNull)) qs)"
  by (induction qs arbitrary: acc) (simp_all split: option.split)

lemma scenario_ids:
  "question_id (mk_question ''q1'' a t) = py ''q1''"
  "question_id (mk_question ''q2'' a t) = py ''q2''"
  "question_id (mk_question ''q3'' a t) = py ''q3''"
  "question_id (mk_question ''q4'' a t) = py ''q4''"
  by (simp_all add: question_id_def mk_question_def dict_get_def)

lemma scenario_lookup:
  "scenario_answers (py ''q1'') = Some (JStr (py ''a''))"
  "scenario_answers (py ''q2'') = Some (JStr (py ''b''))"
  "scenario_answers (py ''q3'') = Some (JStr (py ''x''))"
  "scenario_answers (py ''q4'') = None"
  by (simp_all add: scenario_answers_def py_def)

lemma scenario_correct: "count_correct scenario_questions scenario_answers 0 = 2"
  by (simp add: scenario_questions_def scenario_ids scenario_lookup)
     (simp add: mk_question_def dict_get_def py_def)

lemma scenario_score: "score_of scenario_questions scenario_answers = 50"
proof -
  have "length scenario_questions = 4" by (simp add: scenario_questions_def)
  then show ?thesis by (simp add: score_of_def scenario_correct rd_half rd_50)
qed

lemma scenario_missed:
  "questions_missed_of scenario_questions scenario_answers = [JStr (py ''Question three'')]"
  by (simp add: questions_missed_of_def scenario_questions_def scenario_ids scenario_lookup)
     (simp add: mk_question_def dict_get_def py_def)

text \<open>
  C1, as the code has it. The list of missed questions holds, in question order, the text
  (or \<open>Unknown question\<close>) of exactly the questions whose id is among the submitted
  answers with a value different from the key's: the membership test of the second loop
  leaves an unanswered question out. In scenario A (keys q1:a, q2:b, q3:c, q4:d, passing
  score 70, answers q1:a, q2:b, q3:x) the score is 50, the submission does not pass and
  the list is the text of q3 alone.
\<close>

theorem missed_questions_answered_wrong:
  "questions_missed_of questions answers =
     map (\<lambda>q. dict_get (q_question q) (JStr (py ''Unknown question'')))
       (filter (\<lambda>q. case answers (question_id q) of
                       None \<Rightarrow> False
                     | Some a \<Rightarrow> \<not> py_eq a (dict_get (q_correct_answer q) JNull)) questions)
   \<and> score_of scenario_questions scenario_answers = 50
   \<and> passed_of (score_of scenario_questions scenario_answers) 70 = False
   \<and> questions_missed_of scenario_questions scenario_answers = [JStr (py ''Question three'')]"
proof (intro conjI)
  show "questions_missed_of questions answers =
     map (\<lambda>q. dict_get (q_question q) (JStr (py ''Unknown question'')))
       (filter (\<lambda>q. case answers (question_id q) of
                       None \<Rightarrow> False
                     | Some a \<Rightarrow> \<not> py_eq a (dict_get (q_correct_answer q) JNull)) questions)"
    unfolding questions_missed_of_def by (subst collect_missed_acc) simp
  show "score_of scenario_questions scenario_answers = 50"
    by (rule scenario_score)
  show "passed_of (score_of scenario_questions scenario_answers) 70 = False"
    by (simp add: scenario_score passed_of_def)
  show "questions_missed_of scenario_questions scenario_answers = [JStr (py ''Question three'')]"
    by (rule scenario_missed)
qed

text \<open>
  C1 as the spec states it fails in scenario A: q4 is unanswered and its text is not in
  the list of missed questions.
\<close>

theorem missed_questions_unanswered_counterexample:
  "score_of scenario_questions scenario_answers = 50
   \<and> passed_of (score_of scenario_questions scenario_answers) 70 = False
   \<and> scenario_answers (question_id (mk_question ''q4'' ''d'' ''Question four'')) = None
   \<and> questions_missed_of scenario_questions scenario_answers
       \<noteq> [JStr (py ''Question three''), JStr (py ''Question four'')]"
  by (simp add: scenario_score scenario_missed scenario_ids scenario_lookup passed_of_def)

text \<open>
  C3, as the code has it. With no questions the score is exactly 0, and the submission
  passes exactly when the passing score is at most 0: \<open>passed\<close> is the comparison
  \<open>score >= passing_score\<close> in every case.
\<close>

theorem empty_assessment_score_and_passed:
  "score_of [] answers = 0
   \<and> passed_of (score_of [] answers) passing_score = (passing_score \<le> 0)"
  by (simp add: score_of_def passed_of_def)

text \<open>
  C3 as the spec states it fails for a passing score of 0: the empty assessment is passed.
\<close>

theorem empty_assessment_passed_counterexample:
  "score_of [] Map.empty = 0 \<and> passed_of (score_of [] Map.empty) 0 = True"
  by (simp add: score_of_def passed_of_def)

section \<open>Properties of the progress updates\<close>

lemma py_inject [simp]: "(py a = py b) = (a = b)"
  by (simp add: py_def inj_map_eq_map [OF inj_of_char])

lemma py_Nil [simp]: "(py s = []) = (s = [])" "([] = py s) = (s = [])"
  by (auto simp: py_def)

lemma set_status_stamped:
  "(p_status p = py ''completed'' \<longrightarrow> p_completed_at p \<noteq> None) \<Longrightarrow>
   p_status (set_status p s now) = py ''completed'' \<longrightarrow> p_completed_at (set_status p s now) \<noteq> None"
  by (auto simp: set_status_def split: option.splits)

lemma update_fields_status: "p_status (update_fields p payload now) = p_status (set_status p (in_status payload) now)"
  by (simp add: update_fields_def Let_def split: option.splits)
lemma update_fields_completed_at: "p_completed_at (update_fields p payload now) = p_completed_at (set_status p (in_status payload) now)"
  by (simp add: update_fields_def Let_def split: option.splits)

lemma update_fields_stamped:
  "(p_status p = py ''completed'' \<longrightarrow> p_completed_at p \<noteq> None) \<Longrightarrow>
   p_status (update_fields p payload now) = py ''completed'' \<longrightarrow> p_completed_at (update_fields p payload now) \<noteq> None"
  using set_status_stamped[of p "in_status payload" now] by (simp add: update_fields_status update_fields_completed_at)

lemma apply_result_stamped:
  "(p_status p = py ''completed'' \<longrightarrow> p_completed_at p \<noteq> None) \<Longrightarrow>
   p_status (apply_result p score passed now) = py ''completed'' \<longrightarrow> p_completed_at (apply_result p score passed now) \<noteq> None"
  by (auto simp: apply_result_def Let_def py_def)

lemma get_object_in: "get_object_or_404 key rows i = Inr r \<Longrightarrow> r \<in> set rows"
proof -
  assume a: "get_object_or_404 key rows i = Inr r"
  then have "filter (\<lambda>r. key r = i) rows = [r]"
    by (auto simp: get_object_or_404_def split: list.splits)
  then have "r \<in> set (filter (\<lambda>r. key r = i) rows)" by simp
  then show ?thesis by simp
qed

lemma save_progress_stamped:
  "completed_stamped d \<Longrightarrow> (p_status p = py ''completed'' \<longrightarrow> p_completed_at p \<noteq> None) \<Longrightarrow> completed_stamped (save_progress d p t)"
  by (auto simp: completed_stamped_def save_progress_def)

lemma update_progress_stamped:
  "completed_stamped d \<Longrightarrow> completed_stamped (snd (update_progress d i payload now t))"
  apply (simp add: update_progress_def Let_def split: sum.splits)
  apply clarify
  apply (rule save_progress_stamped, assumption)
  apply (rule update_fields_stamped)
  apply (drule get_object_in)
  apply (simp add: completed_stamped_def)
  done

lemma create_result_progress: "create_result d r = Inr d' \<Longrightarrow> db_progress d' = db_progress d"
  by (auto simp: create_result_def split: option.splits if_splits)

lemma filter_single_in: "filter P xs = [x] \<Longrightarrow> x \<in> set xs"
proof -
  assume "filter P xs = [x]"
  then have "x \<in> set (filter P xs)" by simp
  then show ?thesis by simp
qed

lemma update_linked_stamped:
  "completed_stamped d \<Longrightarrow> update_linked_progress d s l c score passed now t = Inr d' \<Longrightarrow> completed_stamped d'"
  apply (auto simp: update_linked_progress_def split: option.splits if_splits list.splits)
  apply (rule save_progress_stamped, assumption)
  apply (rule apply_result_stamped)
  apply (drule filter_single_in)
  apply (simp add: completed_stamped_def)
  done

lemma create_result_stamped: "completed_stamped d \<Longrightarrow> create_result d r = Inr d' \<Longrightarrow> completed_stamped d'"
  by (drule create_result_progress) (simp add: completed_stamped_def)

lemma submit_stamped:
  "completed_stamped d \<Longrightarrow> completed_stamped (snd (submit_assessment fb d i payload now t))"
  by (auto simp: submit_assessment_def Let_def split: sum.splits option.splits
        intro: create_result_stamped update_linked_stamped)

lemma step_stamped: "completed_stamped d \<Longrightarrow> completed_stamped (step fb d c)"
  by (cases c) (simp_all add: update_progress_stamped submit_stamped)

lemma run_stamped: "completed_stamped d \<Longrightarrow> completed_stamped (run fb d calls)"
  unfolding run_def by (induction calls arbitrary: d) (simp_all add: step_stamped)

text \<open>
  C2, as the code has it. After any sequence of manual updates and assessment submissions,
  run against a store in which every completed progress row has its completion time, every
  progress row whose status is \<open>completed\<close> has \<open>completed_at\<close> set. The converse and
  a completion percentage of 100 are not kept by the manual update.
\<close>

theorem completed_implies_completed_at:
  "\<forall>p \<in> set (db_progress d). p_status p = py ''completed'' \<longrightarrow> p_completed_at p \<noteq> None \<Longrightarrow>
   \<forall>p \<in> set (db_progress (run feedback d calls)).
     p_status p = py ''completed'' \<longrightarrow> p_completed_at p \<noteq> None"
  using run_stamped [of d feedback calls] by (simp add: completed_stamped_def)

lemma one_row_run1:
  "db_progress (run no_feedback one_row_db [Update_progress 1 (status_only ''completed'') 10 11]) =
     [(new_progress 1 1 1 1 0)\<lparr>p_status := py ''completed'', p_completed_at := Some 10, p_updated_at := 11\<rparr>]"
  by (simp add: run_def update_progress_def get_object_or_404_def one_row_db_def empty_db_def
      new_progress_def status_only_def update_fields_def set_status_def save_progress_def Let_def)

lemma one_row_run2:
  "db_progress (run no_feedback one_row_db [Update_progress 1 (status_only ''completed'') 10 11,
      Update_progress 1 (status_only ''in_progress'') 20 21]) =
     [(new_progress 1 1 1 1 0)\<lparr>p_status := py ''in_progress'', p_started_at := Some 20, p_completed_at := Some 10, p_updated_at := 21\<rparr>]"
  by (simp add: run_def update_progress_def get_object_or_404_def one_row_db_def empty_db_def
      new_progress_def status_only_def update_fields_def set_status_def save_progress_def Let_def)

text \<open>
  The theorem at a store with one fresh row: the premise holds there, and after a manual
  update to \<open>completed\<close> the row is completed with its completion time.
\<close>

theorem completed_implies_completed_at_witness:
  "map (\<lambda>p. (p_status p, p_completed_at p)) (db_progress one_row_db) = [(py ''not_started'', None)]
   \<and> map (\<lambda>p. (p_status p, p_completed_at p))
        (db_progress (run no_feedback one_row_db [Update_progress 1 (status_only ''completed'') 10 11]))
      = [(py ''completed'', Some 10)]"
  using completed_implies_completed_at [of one_row_db no_feedback "[Update_progress 1 (status_only ''completed'') 10 11]"]
  by (simp add: one_row_run1) (simp add: one_row_db_def empty_db_def new_progress_def)

text \<open>
  C2 as the spec states it fails. A manual update of a fresh row to \<open>completed\<close> leaves
  its completion percentage at 0, and a second manual update to \<open>in_progress\<close> leaves
  \<open>completed_at\<close> set on a row that is no longer completed.
\<close>

theorem progress_invariant_counterexample:
  "map (\<lambda>p. (p_status p, p_completed_at p, p_completion_percentage p))
     (db_progress (run no_feedback one_row_db [Update_progress 1 (status_only ''completed'') 10 11]))
     = [(py ''completed'', Some 10, 0)]
   \<and> map (\<lambda>p. (p_status p, p_completed_at p, p_completion_percentage p))
       (db_progress (run no_feedback one_row_db
          [Update_progress 1 (status_only ''completed'') 10 11,
           Update_progress 1 (status_only ''in_progress'') 20 21]))
     = [(py ''in_progress'', Some 10, 0)]"
  by (simp add: one_row_run1 one_row_run2) (simp add: new_progress_def)

section \<open>Properties of the path completion\<close>

lemma scenario_b_counts:
  "total_content scenario_b_db 1 = 3" "completed_content scenario_b_db 1 = 2"
  by (simp_all add: total_content_def completed_content_def scenario_b_db_def empty_db_def
        new_progress_def)

lemma scenario_b_value: "completion_percentage scenario_b_db 1 = rd (6667 / 100)"
proof -
  have a: "(of_nat (2::nat) :: rat) / of_nat (3::nat) = 2 / 3" by simp
  have "completion_percentage scenario_b_db 1 = py_round2 (rd (rd (2 / 3) * 100))"
    by (simp only: completion_percentage_def scenario_b_counts a) simp
  also have "\<dots> = py_round2 (4691249611844266 / 2 ^ 46)"
    by (simp only: rd_two_thirds rd_two_thirds_100)
  also have "\<dots> = rd (of_int 6667 / 100)"
    by (simp only: py_round2_def round_two_thirds)
  finally show ?thesis by simp
qed

lemma tie_counts: "total_content tie_db 1 = 160" "completed_content tie_db 1 = 23"
  by (code_simp, code_simp)

lemma rd_tie: "rd (23 / 160) = 5179139571476070 / 2 ^ 55"
  using rd_scale [of "23 / 160" 55 5179139571476070] by (simp add: py_round_near)

lemma rd_tie_100: "rd (5179139571476070 / 2 ^ 55 * 100) = 8092405580431359 / 2 ^ 49"
  using rd_scale [of "5179139571476070 / 2 ^ 55 * 100" 49 8092405580431359]
  by (simp add: py_round_near)

lemma round_tie: "py_round (8092405580431359 / 2 ^ 49 * 100) = 1437"
  by (rule py_round_near) simp_all

text \<open>
  The double of 23 / 160 * 100 lies just below 14.375, so 23 completed of 160 give the
  double of 14.37, where the exact quotient would be a tie.
\<close>

lemma tie_value: "completion_percentage tie_db 1 = rd (1437 / 100)"
proof -
  have a: "(of_nat (23::nat) :: rat) / of_nat (160::nat) = 23 / 160" by simp
  have "completion_percentage tie_db 1 = py_round2 (rd (rd (23 / 160) * 100))"
    by (simp only: completion_percentage_def tie_counts a) simp
  also have "\<dots> = py_round2 (8092405580431359 / 2 ^ 49)"
    by (simp only: rd_tie rd_tie_100)
  also have "\<dots> = rd (of_int 1437 / 100)"
    by (simp only: py_round2_def round_tie)
  finally show ?thesis by simp
qed

text \<open>
  C4. The completion percentage of a learning path is 0 when the path has no content
  assignment. Otherwise it is the float \<open>(completed / total) * 100\<close>, where
  \<open>completed\<close> counts the progress rows of the path with \<open>completed_at\<close> set and
  \<open>total\<close> its content assignments, rounded to two decimal places: it is the double of
  a whole number of hundredths \<open>k / 100\<close>, and \<open>k / 100\<close> is within half a hundredth of
  the exact quotient \<open>100 * completed / total\<close> up to the rounding of the two float
  operations, and within half a hundredth exactly when fewer than \<open>2 ^ 36\<close> rows are
  completed. With 3 assignments and 2 of 3 progress rows completed it is the double of
  66.67.
\<close>

theorem completion_percentage_formula:
  "completion_percentage d path_id =
     (let total = length (filter (\<lambda>a. ca_learning_path_id a = path_id) (db_content_assignments d));
          completed = length (filter (\<lambda>p. p_learning_path_id p = path_id \<and> p_completed_at p \<noteq> None)
                                (db_progress d))
      in if total = 0 then 0
         else py_round2 (rd (rd (of_nat completed / of_nat total) * 100)))
   \<and> (\<exists>k :: int.
         completion_percentage d path_id = rd (of_int k / 100)
         \<and> \<bar>(of_int k / 100 :: rat) -
              (if total_content d path_id = 0 then 0
               else 100 * of_nat (completed_content d path_id) / of_nat (total_content d path_id))\<bar>
             \<le> 1 / 200 +
                (if total_content d path_id = 0 then 0
                 else 100 * of_nat (completed_content d path_id) / of_nat (total_content d path_id))
                * (3 / 2 ^ 53)
         \<and> (completed_content d path_id < 2 ^ 36 \<longrightarrow>
              \<bar>(of_int k / 100 :: rat) -
                (if total_content d path_id = 0 then 0
                 else 100 * of_nat (completed_content d path_id) / of_nat (total_content d path_id))\<bar>
               \<le> 1 / 200))
   \<and> completion_percentage scenario_b_db 1 = rd (6667 / 100)"
proof (intro conjI)
  show "completion_percentage d path_id =
     (let total = length (filter (\<lambda>a. ca_learning_path_id a = path_id) (db_content_assignments d));
          completed = length (filter (\<lambda>p. p_learning_path_id p = path_id \<and> p_completed_at p \<noteq> None)
                                (db_progress d))
      in if total = 0 then 0
         else py_round2 (rd (rd (of_nat completed / of_nat total) * 100)))"
    by (simp add: completion_percentage_def total_content_def completed_content_def Let_def)
  show "completion_percentage scenario_b_db 1 = rd (6667 / 100)" by (rule scenario_b_value)
  show "\<exists>k :: int.
         completion_percentage d path_id = rd (of_int k / 100)
         \<and> \<bar>(of_int k / 100 :: rat) -
              (if total_content d path_id = 0 then 0
               else 100 * of_nat (completed_content d path_id) / of_nat (total_content d path_id))\<bar>
             \<le> 1 / 200 +
                (if total_content d path_id = 0 then 0
                 else 100 * of_nat (completed_content d path_id) / of_nat (total_content d path_id))
                * (3 / 2 ^ 53)
         \<and> (completed_content d path_id < 2 ^ 36 \<longrightarrow>
              \<bar>(of_int k / 100 :: rat) -
                (if total_content d path_id = 0 then 0
                 else 100 * of_nat (completed_content d path_id) / of_nat (total_content d path_id))\<bar>
               \<le> 1 / 200)"
  proof (cases "total_content d path_id = 0")
    case True
    then show ?thesis by (intro exI [of _ 0]) (simp add: completion_percentage_def)
  next
    case False
    let ?c = "completed_content d path_id" and ?t = "total_content d path_id"
    let ?a = "of_nat ?c / of_nat ?t :: rat"
    let ?k = "py_round (rd (rd ?a * 100) * 100)"
    have t: "0 < ?t" using False by simp
    have q: "(if ?t = 0 then 0 else 100 * of_nat ?c / of_nat ?t) = ?a * 100"
      using False by simp
    have v: "completion_percentage d path_id = rd (of_int ?k / 100)"
      using False by (simp add: completion_percentage_def py_round2_def)
    have g: "\<bar>of_int ?k / 100 - ?a * 100\<bar> \<le> 1 / 200 + ?a * 100 * (3 / 2 ^ 53)"
      by (rule hundredths_general) simp
    have x: "?c < 2 ^ 36 \<longrightarrow> \<bar>of_int ?k / 100 - ?a * 100\<bar> \<le> 1 / 200"
      using hundredths_exact [OF t] by blast
    show ?thesis
      unfolding q using v g x by (intro exI [of _ ?k]) blast
  qed
qed

text \<open>
  The theorem in scenario B: 2 rows are completed of 3 assignments, the value is the
  double of 66.67, and 66.67 is within half a hundredth of 200 / 3.
\<close>

theorem completion_percentage_formula_witness:
  "total_content scenario_b_db 1 = 3 \<and> completed_content scenario_b_db 1 = 2
   \<and> completion_percentage scenario_b_db 1 = rd (6667 / 100)
   \<and> \<bar>6667 / 100 - 100 * 2 / 3\<bar> \<le> (1 / 200 :: rat)"
proof -
  have "completion_percentage scenario_b_db 1 = rd (6667 / 100)"
    using completion_percentage_formula [of scenario_b_db 1] by blast
  then show ?thesis by (simp add: scenario_b_counts)
qed

section \<open>Properties of the assessment-driven update\<close>

lemma filter_map_same:
  "\<forall>r \<in> set rows. M (f r) = M r \<Longrightarrow> filter M (map f rows) = map f (filter M rows)"
  by (induction rows) auto

lemma get_object_filter:
  "get_object_or_404 key rows i = Inr r \<longleftrightarrow> filter (\<lambda>r. key r = i) rows = [r]"
  by (auto simp: get_object_or_404_def split: list.splits)

lemma update_fields_id: "p_id (update_fields p payload now) = p_id p"
  by (simp add: update_fields_def set_status_def Let_def split: option.splits)


lemma save_progress_lookup:
  assumes "filter (\<lambda>r. p_id r = i) (db_progress d) = [p]" and "p_id p' = i"
  shows "filter (\<lambda>r. p_id r = i) (db_progress (save_progress d p' t)) = [p'\<lparr>p_updated_at := t\<rparr>]"
proof -
  let ?f = "\<lambda>r. if p_id r = p_id p' then p'\<lparr>p_updated_at := t\<rparr> else r"
  have "p \<in> set (filter (\<lambda>r. p_id r = i) (db_progress d))" using assms(1) by simp
  then have pi: "p_id p = i" by simp
  have "filter (\<lambda>r. p_id r = i) (map ?f (db_progress d)) = map ?f (filter (\<lambda>r. p_id r = i) (db_progress d))"
    by (rule filter_map_same) (simp add: assms(2))
  then show ?thesis using assms pi by (simp add: save_progress_def)
qed











section \<open>Properties of the manual update\<close>

lemma update_progress_found:
  assumes "get_object_or_404 p_id (db_progress d) i = Inr p"
  shows "fst (update_progress d i payload now t) = Inr ((update_fields p payload now)\<lparr>p_updated_at := t\<rparr>)"
    and "get_object_or_404 p_id (db_progress (snd (update_progress d i payload now t))) i
           = Inr ((update_fields p payload now)\<lparr>p_updated_at := t\<rparr>)"
proof -
  show "fst (update_progress d i payload now t) = Inr ((update_fields p payload now)\<lparr>p_updated_at := t\<rparr>)"
    using assms by (simp add: update_progress_def Let_def)
  have f: "filter (\<lambda>r. p_id r = i) (db_progress d) = [p]"
    using assms by (simp add: get_object_filter)
  then have "p \<in> set (filter (\<lambda>r. p_id r = i) (db_progress d))" by simp
  then have "p_id p = i" by simp
  then have "filter (\<lambda>r. p_id r = i) (db_progress (save_progress d (update_fields p payload now) t))
          = [(update_fields p payload now)\<lparr>p_updated_at := t\<rparr>]"
    using f by (intro save_progress_lookup) (simp_all add: update_fields_id)
  moreover have "snd (update_progress d i payload now t) = save_progress d (update_fields p payload now) t"
    using assms by (simp add: update_progress_def Let_def)
  ultimately show "get_object_or_404 p_id (db_progress (snd (update_progress d i payload now t))) i
           = Inr ((update_fields p payload now)\<lparr>p_updated_at := t\<rparr>)"
    by (simp add: get_object_filter)
qed

lemma update_fields_values:
  "p_completion_percentage (update_fields p payload now) =
     (case in_completion_percentage payload of None \<Rightarrow> p_completion_percentage p | Some v \<Rightarrow> v)"
  "p_time_spent_minutes (update_fields p payload now) =
     (case in_time_spent_minutes payload of None \<Rightarrow> p_time_spent_minutes p | Some v \<Rightarrow> v)"
  "p_mastery_level (update_fields p payload now) =
     (case in_mastery_level payload of None \<Rightarrow> p_mastery_level p | Some v \<Rightarrow> v)"
  "p_score (update_fields p payload now) =
     (case in_score payload of None \<Rightarrow> p_score p | Some v \<Rightarrow> Some v)"
  "p_started_at (update_fields p payload now) =
     (if in_status payload = Some (py ''in_progress'') \<and> p_started_at p = None
      then Some now else p_started_at p)"
  by (auto simp: update_fields_def set_status_def Let_def split: option.splits)

text \<open>
  C6. A manual update of an existing row answers with the saved row, in which each of
  \<open>completion_percentage\<close>, \<open>time_spent_minutes\<close>, \<open>mastery_level\<close> and \<open>score\<close> is
  the payload's value when given and the old value when absent, and \<open>started_at\<close> is
  stamped exactly when the payload's status is \<open>in_progress\<close> and it was unset. A
  following update with status \<open>in_progress\<close> leaves a set \<open>started_at\<close> as it is.
\<close>

theorem manual_update_partial:
  "get_object_or_404 p_id (db_progress d) i = Inr p \<Longrightarrow>
   (\<exists>p'. fst (update_progress d i payload now saved_at) = Inr p'
      \<and> get_object_or_404 p_id (db_progress (snd (update_progress d i payload now saved_at))) i = Inr p'
      \<and> p_completion_percentage p' =
          (case in_completion_percentage payload of None \<Rightarrow> p_completion_percentage p | Some v \<Rightarrow> v)
      \<and> p_time_spent_minutes p' =
          (case in_time_spent_minutes payload of None \<Rightarrow> p_time_spent_minutes p | Some v \<Rightarrow> v)
      \<and> p_mastery_level p' =
          (case in_mastery_level payload of None \<Rightarrow> p_mastery_level p | Some v \<Rightarrow> v)
      \<and> p_score p' = (case in_score payload of None \<Rightarrow> p_score p | Some v \<Rightarrow> Some v)
      \<and> p_started_at p' =
          (if in_status payload = Some (py ''in_progress'') \<and> p_started_at p = None
           then Some now else p_started_at p)
      \<and> (\<exists>p2. fst (update_progress (snd (update_progress d i payload now saved_at)) i
                    (status_only ''in_progress'') now2 saved_at2) = Inr p2
            \<and> p_started_at p2 =
                (if p_started_at p' = None then Some now2 else p_started_at p')))"
proof -
  assume a: "get_object_or_404 p_id (db_progress d) i = Inr p"
  let ?p' = "(update_fields p payload now)\<lparr>p_updated_at := saved_at\<rparr>"
  let ?d' = "snd (update_progress d i payload now saved_at)"
  have 1: "fst (update_progress d i payload now saved_at) = Inr ?p'"
    using a by (rule update_progress_found(1))
  have 2: "get_object_or_404 p_id (db_progress ?d') i = Inr ?p'"
    using a by (rule update_progress_found(2))
  have 3: "fst (update_progress ?d' i (status_only ''in_progress'') now2 saved_at2)
             = Inr ((update_fields ?p' (status_only ''in_progress'') now2)\<lparr>p_updated_at := saved_at2\<rparr>)"
    using 2 by (rule update_progress_found(1))
  have 4: "p_started_at ((update_fields ?p' (status_only ''in_progress'') now2)\<lparr>p_updated_at := saved_at2\<rparr>)
            = (if p_started_at ?p' = None then Some now2 else p_started_at ?p')"
    by (simp add: update_fields_values status_only_def)
  show ?thesis
    apply (rule exI [of _ ?p'])
    apply (intro conjI)
           apply (rule 1)
          apply (rule 2)
         apply (simp add: update_fields_values(1))
        apply (simp add: update_fields_values(2))
       apply (simp add: update_fields_values(3))
      apply (simp add: update_fields_values(4))
     apply (simp add: update_fields_values(5))
    apply (rule exI [of _ "(update_fields ?p' (status_only ''in_progress'') now2)\<lparr>p_updated_at := saved_at2\<rparr>"])
    apply (intro conjI)
     apply (rule 3)
    apply (rule 4)
    done
qed

text \<open>
  Scenario C at the store with one fresh row: the first update with status
  \<open>in_progress\<close> stamps \<open>started_at\<close> with its time, the second leaves it.
\<close>

theorem manual_update_partial_witness:
  "get_object_or_404 p_id (db_progress one_row_db) 1 = Inr (new_progress 1 1 1 1 0)
   \<and> fst (update_progress one_row_db 1 (status_only ''in_progress'') 10 11)
       = Inr ((new_progress 1 1 1 1 0)\<lparr>p_status := py ''in_progress'', p_started_at := Some 10,
                p_updated_at := 11\<rparr>)
   \<and> fst (update_progress (snd (update_progress one_row_db 1 (status_only ''in_progress'') 10 11)) 1
            (status_only ''in_progress'') 20 21)
       = Inr ((new_progress 1 1 1 1 0)\<lparr>p_status := py ''in_progress'', p_started_at := Some 10,
                p_updated_at := 21\<rparr>)"
  using manual_update_partial [of one_row_db 1 "new_progress 1 1 1 1 0" "status_only ''in_progress''" 10 11 20 21]
  by (simp add: update_progress_def get_object_or_404_def one_row_db_def empty_db_def
      new_progress_def status_only_def update_fields_def set_status_def save_progress_def Let_def)

section \<open>Properties of the goal generation\<close>

lemma py_length [simp]: "length (py s) = length s"
  by (simp add: py_def)

lemma fallback_length: "length (get_fallback_goals subject difficulty) = 4"
  by (simp add: get_fallback_goals_def Let_def)

lemma collect_goals_acc:
  "collect_goals U ls acc =
     acc @ filter (\<lambda>g. 10 < length g) (map clean_goal (filter (is_bullet U) (map strip ls)))"
  by (induction ls arbitrary: acc) (auto simp: Let_def)

lemma goals_response_text:
  "strip response \<noteq> [] \<Longrightarrow>
   goals_response U subject difficulty (Some response # rest) =
     (if 3 \<le> length (filter (\<lambda>g. 10 < length g) (cleaned_items U response))
      then take 5 (filter (\<lambda>g. 10 < length g) (cleaned_items U response))
      else get_fallback_goals subject difficulty)"
proof -
  assume a: "strip response \<noteq> []"
  then have "response \<noteq> []" by (auto simp: strip_def)
  with a show ?thesis
    by (simp add: goals_response_def cleaned_items_def Let_def collect_goals_acc [of _ _ "[]", simplified])
qed

lemma two_goal_cleaned:
  "cleaned_items ascii two_goal_response =
     [py ''Learn fractions well'', py ''Short'', py ''Practise long division'']"
  by (simp add: cleaned_items_def two_goal_response_def py_def strip_def isspace_def is_bullet_def
        clean_goal_def lstrip_def ascii_def)

lemma ten_char_cleaned:
  "cleaned_items ascii ten_char_response = [py ''abcdefghij'', py ''klmnopqrst'', py ''uvwxyzabcd'']"
  by (simp add: cleaned_items_def ten_char_response_def py_def strip_def isspace_def is_bullet_def
        clean_goal_def lstrip_def ascii_def)

lemma strip_nonempty: "c \<in> set s \<Longrightarrow> \<not> isspace c \<Longrightarrow> strip s \<noteq> []"
proof -
  assume c: "c \<in> set s" "\<not> isspace c"
  then have "dropWhile isspace s \<noteq> []" by (auto simp: dropWhile_eq_Nil_conv)
  moreover have "c \<in> set (dropWhile isspace s)"
    using c by (metis (full_types) UnE set_append set_takeWhileD takeWhile_dropWhile_id)
  then have "c \<in> set (rev (dropWhile isspace s))" by simp
  then have "dropWhile isspace (rev (dropWhile isspace s)) \<noteq> []"
    using c(2) by (auto simp: dropWhile_eq_Nil_conv)
  then show ?thesis by (simp add: strip_def)
qed

lemma two_goal_strip: "strip two_goal_response \<noteq> []"
  by (rule strip_nonempty [of 72]) (simp_all add: two_goal_response_def py_def isspace_def)

lemma ten_char_strip: "strip ten_char_response \<noteq> []"
  by (rule strip_nonempty [of 45]) (simp_all add: ten_char_response_def py_def isspace_def)

text \<open>
  C7, as the code has it. When the service returns a text that is not blank, the goals
  are the cleaned bullet items of more than 10 characters (an item of 10 characters or
  fewer is discarded): at most the first 5 of them when there are at least 3, and
  otherwise the 4 fallback goals, which depend on the subject and the difficulty only.
\<close>

theorem goals_response_validation:
  "(\<exists>n. int_value student_grade = Some n \<and> 1 \<le> n) \<and> subject \<noteq> []
     \<and> client (goals_request student_grade subject difficulty) = Returns (Some response # rest)
     \<and> strip response \<noteq> [] \<Longrightarrow>
   fst (generate_personalized_goals U client student_grade subject difficulty) =
     (if 3 \<le> length (filter (\<lambda>g. 10 < length g) (cleaned_items U response))
      then take 5 (filter (\<lambda>g. 10 < length g) (cleaned_items U response))
      else get_fallback_goals subject difficulty)
   \<and> length (fst (generate_personalized_goals U client student_grade subject difficulty)) \<le> 5
   \<and> length (get_fallback_goals subject difficulty) = 4"
proof -
  assume a: "(\<exists>n. int_value student_grade = Some n \<and> 1 \<le> n) \<and> subject \<noteq> []
     \<and> client (goals_request student_grade subject difficulty) = Returns (Some response # rest)
     \<and> strip response \<noteq> []"
  then obtain n where n: "int_value student_grade = Some n" "1 \<le> n" by blast
  have r: "fst (generate_personalized_goals U client student_grade subject difficulty) =
      goals_response U subject difficulty (Some response # rest)"
    using a n by (simp add: generate_personalized_goals_def Let_def)
  have g: "goals_response U subject difficulty (Some response # rest) =
     (if 3 \<le> length (filter (\<lambda>g. 10 < length g) (cleaned_items U response))
      then take 5 (filter (\<lambda>g. 10 < length g) (cleaned_items U response))
      else get_fallback_goals subject difficulty)"
    using a by (intro goals_response_text) simp
  have l: "length (goals_response U subject difficulty (Some response # rest)) \<le> 5"
    unfolding g by (simp add: fallback_length)
  show ?thesis using r g l fallback_length by simp
qed


text \<open>
  Scenario D: a response with two valid cleaned lines (and a third that is too short)
  gives the fallback goals.
\<close>

theorem goals_response_validation_witness:
  "map length (filter (\<lambda>g. 10 < length g) (cleaned_items ascii two_goal_response)) = [20, 22]
   \<and> fst (generate_personalized_goals ascii (always (Returns [Some two_goal_response]))
            (PyInt 5) (py ''Math'') (py ''beginner''))
     = get_fallback_goals (py ''Math'') (py ''beginner'')"
  using goals_response_validation [of "PyInt 5" "py ''Math''" "always (Returns [Some two_goal_response])"
      "py ''beginner''" two_goal_response "[]" ascii]
  by (simp add: two_goal_cleaned two_goal_strip always_def)

text \<open>
  C7 as the spec states it fails for items of exactly 10 characters: three bullet lines
  whose cleaned items have 10 characters each are not shorter than 10, and the code
  discards all three and returns the fallback.
\<close>

theorem goals_ten_characters_counterexample:
  "map length (cleaned_items ascii ten_char_response) = [10, 10, 10]
   \<and> fst (generate_personalized_goals ascii (always (Returns [Some ten_char_response]))
            (PyInt 5) (py ''Math'') (py ''beginner''))
     = get_fallback_goals (py ''Math'') (py ''beginner'')
   \<and> fst (generate_personalized_goals ascii (always (Returns [Some ten_char_response]))
            (PyInt 5) (py ''Math'') (py ''beginner''))
     \<noteq> take 5 (cleaned_items ascii ten_char_response)"
proof -
  have ne: "get_fallback_goals (py ''Math'') (py ''beginner'')
      \<noteq> take 5 (cleaned_items ascii ten_char_response)"
  proof
    assume "get_fallback_goals (py ''Math'') (py ''beginner'')
      = take 5 (cleaned_items ascii ten_char_response)"
    then have "length (get_fallback_goals (py ''Math'') (py ''beginner''))
      = length (take 5 (cleaned_items ascii ten_char_response))" by simp
    then show False by (simp add: fallback_length ten_char_cleaned)
  qed
  have "fst (generate_personalized_goals ascii (always (Returns [Some ten_char_response]))
            (PyInt 5) (py ''Math'') (py ''beginner''))
     = goals_response ascii (py ''Math'') (py ''beginner'') [Some ten_char_response]"
    by (simp add: generate_personalized_goals_def always_def Let_def)
  also have "\<dots> = get_fallback_goals (py ''Math'') (py ''beginner'')"
    using goals_response_text [OF ten_char_strip, of ascii "py ''Math''" "py ''beginner''" "[]"]
    by (simp add: ten_char_cleaned)
  finally show ?thesis using ne by (simp add: ten_char_cleaned)
qed

text \<open>
  C10. With an empty subject, a grade that is not an integer, or a grade below 1, the
  goals are the 4 fallback goals of the subject and the difficulty, and no request is
  made to the service.
\<close>

theorem goals_invalid_input_fallback:
  "subject = [] \<or> int_value student_grade = None
     \<or> (\<exists>n. int_value student_grade = Some n \<and> n < 1) \<Longrightarrow>
   generate_personalized_goals U client student_grade subject difficulty
     = (get_fallback_goals subject difficulty, [])
   \<and> length (get_fallback_goals subject difficulty) = 4"
  by (auto simp: generate_personalized_goals_def fallback_length split: option.splits)


text \<open>
  The theorem with an empty subject, with grade 0 and with a grade that is no integer.
\<close>

theorem goals_invalid_input_fallback_witness:
  "generate_personalized_goals ascii (always (Returns [Some two_goal_response])) (PyInt 5) [] (py ''beginner'')
     = ([py ''Understand and master core concepts in the subject'',
         py ''Complete all assigned content at beginner level with 80%+ accuracy'',
         py ''Apply the subject knowledge to solve real-world problems'',
         py ''Demonstrate mastery through assessments and projects''], [])
   \<and> generate_personalized_goals ascii (always (Returns [Some two_goal_response])) (PyInt 0) (py ''Math'') (py ''beginner'')
     = (get_fallback_goals (py ''Math'') (py ''beginner''), [])
   \<and> generate_personalized_goals ascii (always (Returns [Some two_goal_response])) PyOther (py ''Math'') (py ''beginner'')
     = (get_fallback_goals (py ''Math'') (py ''beginner''), [])"
  using goals_invalid_input_fallback [of "[]" "PyInt 5" ascii "always (Returns [Some two_goal_response])" "py ''beginner''"]
    goals_invalid_input_fallback [of "py ''Math''" "PyInt 0" ascii "always (Returns [Some two_goal_response])" "py ''beginner''"]
    goals_invalid_input_fallback [of "py ''Math''" "PyOther" ascii "always (Returns [Some two_goal_response])" "py ''beginner''"]
  by (simp add: get_fallback_goals_def py_def)

section \<open>Properties of the mentor chat\<close>










lemma bundle_frame:
  assumes "db_students d' = db_students d" "db_learning_paths d' = db_learning_paths d"
    "db_contents d' = db_contents d" "db_content_assignments d' = db_content_assignments d"
    "db_progress d' = db_progress d"
    "mi_student_id payload' = mi_student_id payload"
    "mi_learning_path_id payload' = mi_learning_path_id payload"
    "mi_content_id payload' = mi_content_id payload"
  shows "context_bundle d' payload' = context_bundle d payload"
proof -
  have cp: "completion_percentage d' k = completion_percentage d k" for k
    using assms by (simp add: completion_percentage_def total_content_def completed_content_def)
  have pr: "progress_records d' s k = progress_records d s k" for s k
    using assms by (simp add: progress_records_def)
  have tt: "topic_titles d' rows = topic_titles d rows" for rows
    using assms by (simp add: topic_titles_def content_title_def)
  have pp: "progress_parts d' rows = progress_parts d rows" for rows
    by (simp add: progress_parts_def Let_def tt)
  have pc: "path_context d' st l = path_context d st l" for st l
    using assms by (simp add: path_context_def cp pr pp split: option.splits sum.splits)
  have cc: "content_context d' c = content_context d c" for c
    using assms by (simp add: content_context_def split: option.splits sum.splits)
  show ?thesis
    using assms by (simp add: context_bundle_def pc cc split: sum.splits)
qed

lemma chat_with_ai_mentor_frame:
  "db_students (snd (chat_with_ai_mentor U client d payload)) = db_students d"
  "db_learning_paths (snd (chat_with_ai_mentor U client d payload)) = db_learning_paths d"
  "db_contents (snd (chat_with_ai_mentor U client d payload)) = db_contents d"
  "db_content_assignments (snd (chat_with_ai_mentor U client d payload)) = db_content_assignments d"
  "db_progress (snd (chat_with_ai_mentor U client d payload)) = db_progress d"
  by (auto simp: chat_with_ai_mentor_def create_session_def Let_def split: sum.splits option.splits)

lemma path_completion: "completion_percentage path_db 1 = 50"
proof -
  have t: "total_content path_db 1 = 2" "completed_content path_db 1 = 1"
    by (simp_all add: total_content_def completed_content_def path_db_def empty_db_def
          new_progress_def)
  have "completion_percentage path_db 1 = py_round2 (rd (rd (1 / 2) * 100))"
    by (simp only: completion_percentage_def t) simp
  also have "\<dots> = rd (of_int (py_round (of_int 5000)) / 100)"
    by (simp add: rd_half rd_50 py_round2_def)
  also have "\<dots> = 50" by (simp only: py_round_of_int) (simp add: rd_50)
  finally show ?thesis .
qed

lemma path_student:
  "get_object_or_404 s_id (db_students path_db) 1
     = Inr \<lparr>s_id = 1, s_first_name = py ''Ada'', s_grade_level = 7\<rparr>"
  by (simp add: get_object_or_404_def path_db_def empty_db_def)

lemma path_path:
  "get_object_or_404 lp_id (db_learning_paths path_db) 1
     = Inr \<lparr>lp_id = 1, lp_title = py ''Fractions'', lp_subject_name = py ''Math'',
            lp_difficulty_level = py ''beginner''\<rparr>"
  by (simp add: get_object_or_404_def path_db_def empty_db_def)

lemma path_parts:
  "progress_parts path_db (progress_records path_db 1 1)
     = [py ''Progress: 1 items completed, 0 in progress. Average mastery: 68%.'',
        py ''Areas needing support: Thirds.'', py ''Strong areas: Halves.'']"
  by code_simp

lemma path_content:
  "content_context path_db (Some 2)
     = Inr ([(''current_content'', CStr (py ''Thirds'')), (''content_type'', CStr (py ''quiz''))],
            [py ''The student is currently viewing: '' @ [39] @ py ''Thirds'' @ [39]
             @ py '' (quiz). Focus your help on this specific content.''])"
  by code_simp

lemma fmt0_50: "fmt0 50 = py ''50''"
  by code_simp

lemma path_bundle_value:
  "context_bundle path_db (path_query ''What is a third?'') = Inr path_bundle"
proof -
  have pc: "path_context path_db \<lparr>s_id = 1, s_first_name = py ''Ada'', s_grade_level = 7\<rparr> (Some 1)
      = Inr ([(''subject'', CStr (py ''Math'')), (''difficulty'', CStr (py ''beginner''))],
             [py ''The student is working on: '' @ [39] @ py ''Fractions'' @ [39]
              @ py '' (Completion: '' @ py ''50'' @ py ''%)'',
              py ''Progress: 1 items completed, 0 in progress. Average mastery: 68%.'',
              py ''Areas needing support: Thirds.'', py ''Strong areas: Halves.''])"
    by (simp add: path_context_def path_path path_completion fmt0_50 path_parts)
  have "context_bundle path_db (path_query ''What is a third?'') =
      Inr ([(''student_grade'', CInt 7), (''student_name'', CStr (py ''Ada'')),
            (''subject'', CStr (py ''Math'')), (''difficulty'', CStr (py ''beginner'')),
            (''current_content'', CStr (py ''Thirds'')), (''content_type'', CStr (py ''quiz''))],
           Some (join (py '' '')
             [py ''The student is working on: '' @ [39] @ py ''Fractions'' @ [39]
              @ py '' (Completion: '' @ py ''50'' @ py ''%)'',
              py ''Progress: 1 items completed, 0 in progress. Average mastery: 68%.'',
              py ''Areas needing support: Thirds.'', py ''Strong areas: Halves.'',
              py ''The student is currently viewing: '' @ [39] @ py ''Thirds'' @ [39]
              @ py '' (quiz). Focus your help on this specific content.'']))"
    by (simp add: context_bundle_def path_query_def path_student pc path_content)
  also have "\<dots> = Inr path_bundle"
    by (simp add: path_bundle_def py_def)
  finally show ?thesis .
qed

text \<open>
  C9. The context bundle is a function of the student, learning path and content ids of
  the request and of the students, learning paths, contents, content assignments and
  progress rows of the store: two stores and two requests that agree on these give the
  same bundle, whatever the query, the session type, the client and the rest of the
  store. In particular a second call, against the store the first call left, builds the
  same bundle, and both sessions carry its \<open>context_data\<close>.
\<close>

theorem context_bundle_deterministic:
  "db_students d' = db_students d \<and> db_learning_paths d' = db_learning_paths d
     \<and> db_contents d' = db_contents d \<and> db_content_assignments d' = db_content_assignments d
     \<and> db_progress d' = db_progress d
     \<and> mi_student_id payload' = mi_student_id payload
     \<and> mi_learning_path_id payload' = mi_learning_path_id payload
     \<and> mi_content_id payload' = mi_content_id payload \<Longrightarrow>
   context_bundle d' payload' = context_bundle d payload
   \<and> context_bundle (snd (chat_with_ai_mentor U client d payload)) payload'
       = context_bundle d payload
   \<and> (case fst (chat_with_ai_mentor U client d payload) of
         Inl e \<Rightarrow> True
       | Inr session \<Rightarrow>
           (case fst (chat_with_ai_mentor U' client' (snd (chat_with_ai_mentor U client d payload)) payload') of
              Inl e \<Rightarrow> True
            | Inr session' \<Rightarrow>
                m_context_data session' = m_context_data session
                \<and> map_sum id fst (context_bundle d payload) = Inr (m_context_data session)))"
proof -
  assume a: "db_students d' = db_students d \<and> db_learning_paths d' = db_learning_paths d
     \<and> db_contents d' = db_contents d \<and> db_content_assignments d' = db_content_assignments d
     \<and> db_progress d' = db_progress d
     \<and> mi_student_id payload' = mi_student_id payload
     \<and> mi_learning_path_id payload' = mi_learning_path_id payload
     \<and> mi_content_id payload' = mi_content_id payload"
  let ?d1 = "snd (chat_with_ai_mentor U client d payload)"
  have 1: "context_bundle d' payload' = context_bundle d payload"
    using a by (intro bundle_frame) simp_all
  have 2: "context_bundle ?d1 payload' = context_bundle d payload"
    using a by (intro bundle_frame) (simp_all add: chat_with_ai_mentor_frame)
  have s: "fst (chat_with_ai_mentor V cl x p) = Inr session \<Longrightarrow>
      map_sum id fst (context_bundle x p) = Inr (m_context_data session)" for V cl x p session
    by (auto simp: chat_with_ai_mentor_def Let_def split: sum.splits)
  have 3: "(case fst (chat_with_ai_mentor U client d payload) of
         Inl e \<Rightarrow> True
       | Inr session \<Rightarrow>
           (case fst (chat_with_ai_mentor U' client' ?d1 payload') of
              Inl e \<Rightarrow> True
            | Inr session' \<Rightarrow>
                m_context_data session' = m_context_data session
                \<and> map_sum id fst (context_bundle d payload) = Inr (m_context_data session)))"
    using s [of U client d payload] s [of U' client' ?d1 payload'] 2
    by (auto split: sum.splits)
  show ?thesis using 1 2 3 by blast
qed

text \<open>
  The theorem for a student on a learning path with two progress rows: the bundle before
  a call, and the bundle of another query after it.
\<close>

theorem context_bundle_deterministic_witness:
  "context_bundle path_db (path_query ''What is a third?'') = Inr path_bundle
   \<and> context_bundle
        (snd (chat_with_ai_mentor ascii (always (Returns [Some (py ''One of three equal parts.'')]))
                path_db (path_query ''What is a third?'')))
        (path_query ''And a half?'')
     = Inr path_bundle"
proof -
  let ?client = "always (Returns [Some (py ''One of three equal parts.'')])"
  have prem: "db_students path_db = db_students path_db
     \<and> db_learning_paths path_db = db_learning_paths path_db
     \<and> db_contents path_db = db_contents path_db
     \<and> db_content_assignments path_db = db_content_assignments path_db
     \<and> db_progress path_db = db_progress path_db
     \<and> mi_student_id (path_query ''And a half?'') = mi_student_id (path_query ''What is a third?'')
     \<and> mi_learning_path_id (path_query ''And a half?'')
         = mi_learning_path_id (path_query ''What is a third?'')
     \<and> mi_content_id (path_query ''And a half?'') = mi_content_id (path_query ''What is a third?'')"
    by (simp add: path_query_def)
  note th = context_bundle_deterministic [of path_db path_db "path_query ''And a half?''"
      "path_query ''What is a third?''" ascii ?client ascii ?client, OF prem]
  show ?thesis using th path_bundle_value by simp
qed

end
